theory Spec2Isabelle
  imports Complex_Main
begin

section \<open>Conventions of the embedding\<close>

text \<open>
  The sizing engine is Python over \<open>float\<close>, \<open>int\<close>, \<open>str\<close>, \<open>dict\<close> and table rows.
  \<^item> A Python \<open>float\<close> is modelled as a \<open>real\<close>: rounding, infinities and NaN are not
    modelled. A column value that may be missing (NaN) is an \<open>option\<close>.
  \<^item> A Python \<open>int\<close> is an \<open>int\<close>.
  \<^item> An exception is a value \<open>Inl e\<close> of the sum \<open>pyexn + 'a\<close>; every division of the
    source is \<open>pdiv\<close>, which raises \<open>ZeroDivisionError\<close> on a zero divisor as Python's
    division of floats does, and every subscript \<open>d[k]\<close> of a dictionary raises
    \<open>KeyError\<close> on a missing key.
  \<^item> A dictionary that is only looked up is a map; one that is iterated is an association
    list in insertion order.
  \<^item> Messages of exceptions are written without the diacritics of the source.
\<close>

datatype pyexn =
    KeyError string
  | ZeroDivisionError
  | ValueError string
  | TypeError string
  | IndexError
  | AttributeError string

fun exn_class :: "pyexn \<Rightarrow> string" where
  "exn_class (KeyError _) = ''KeyError''"
| "exn_class ZeroDivisionError = ''ZeroDivisionError''"
| "exn_class (ValueError _) = ''ValueError''"
| "exn_class (TypeError _) = ''TypeError''"
| "exn_class IndexError = ''IndexError''"
| "exn_class (AttributeError _) = ''AttributeError''"

definition pdiv :: "real \<Rightarrow> real \<Rightarrow> pyexn + real" where
  "pdiv a b = (if b = 0 then Inl ZeroDivisionError else Inr (a / b))"

text \<open>\<open>math.sqrt\<close> raises \<open>ValueError\<close> on a negative argument.\<close>

definition psqrt :: "real \<Rightarrow> pyexn + real" where
  "psqrt x = (if x < 0 then Inl (ValueError ''math domain error'') else Inr (sqrt x))"

text \<open>\<open>round\<close> of Python rounds a half to the even neighbour.\<close>

definition py_round :: "real \<Rightarrow> int" where
  "py_round x =
     (let f = \<lfloor>x\<rfloor>; d = x - of_int f
      in if d < 1 / 2 then f
         else if 1 / 2 < d then f + 1
         else if even f then f else f + 1)"

subsection \<open>Strings\<close>

text \<open>\<open>sub in s\<close>, \<open>s.startswith(p)\<close> and \<open>s.strip()\<close>.\<close>

fun str_startswith :: "string \<Rightarrow> string \<Rightarrow> bool" where
  "str_startswith s [] = True"
| "str_startswith [] (p # ps) = False"
| "str_startswith (c # cs) (p # ps) = (c = p \<and> str_startswith cs ps)"

fun str_contains :: "string \<Rightarrow> string \<Rightarrow> bool" where
  "str_contains sub [] = (sub = [])"
| "str_contains sub (c # cs) = (str_startswith (c # cs) sub \<or> str_contains sub cs)"

definition is_space :: "char \<Rightarrow> bool" where
  "is_space c = (c \<in> set [CHR '' '', CHR 0x09, CHR 0x0A, CHR 0x0B, CHR 0x0C, CHR 0x0D,
                            CHR 0x1C, CHR 0x1D, CHR 0x1E, CHR 0x1F])"

definition strip :: "string \<Rightarrow> string" where
  "strip s = rev (dropWhile is_space (rev (dropWhile is_space s)))"

text \<open>
  The base class of a bar type, as every function of the engine computes it:
  \<^verbatim>\<open>"montante" if "montante" in tipo_barra else "diagonal" if "diagonal" in tipo_barra else "horizontal"\<close>
\<close>

definition tipo_base_de :: "string \<Rightarrow> string" where
  "tipo_base_de tipo_barra =
     (if str_contains ''montante'' tipo_barra then ''montante''
      else if str_contains ''diagonal'' tipo_barra then ''diagonal''
      else ''horizontal'')"

section \<open>Catalogues\<close>

text \<open>
  A row of the profile table. The fields are the columns \<open>Perfil\<close>, \<open>A(cm2)\<close>,
  \<open>rx(cm)\<close>, \<open>rz(cm)\<close>, \<open>b(cm)\<close>, \<open>t(cm)\<close>, \<open>raio lam.(cm)\<close>, \<open>Wx(cm3)\<close>,
  \<open>Peso(kg/m)\<close>, \<open>D max\<close>, \<open>Notas\<close>, \<open>Np min\<close>, \<open>Aco\<close> and \<open>Qtd furos An\<close>.
  \<open>p_Aco = None\<close> is a row without the steel column, for which \<open>obter_fy\<close> and
  \<open>obter_fu\<close> fall back on \<open>A572-50\<close>.
\<close>

record perfil =
  p_Perfil :: string
  p_A :: real
  p_rx :: real
  p_rz :: real
  p_b :: real
  p_t :: real
  p_raio_lam :: real
  p_Wx :: real
  p_Peso :: real
  p_Dmax :: "real option"
  p_Notas :: "string option"
  p_Np_min :: "real option"
  p_Aco :: "string option"
  p_Qtd_furos_An :: real

text \<open>A row of the material table: columns \<open>fy\<close>, \<open>fu\<close> and \<open>fc\<close> (bolt shear), in kgf/cm2.\<close>

record material =
  m_fy :: real
  m_fu :: real
  m_fc :: real

type_synonym df_materiais = "string \<rightharpoonup> material"

definition obter_fy :: "perfil \<Rightarrow> df_materiais \<Rightarrow> pyexn + real" where
  "obter_fy linha_perfil df_mat =
     (let aco = (case p_Aco linha_perfil of Some a \<Rightarrow> a | None \<Rightarrow> ''A572-50'')
      in case df_mat aco of None \<Rightarrow> Inl (KeyError aco) | Some m \<Rightarrow> Inr (m_fy m))"

definition obter_fu :: "perfil \<Rightarrow> df_materiais \<Rightarrow> pyexn + real" where
  "obter_fu linha_perfil df_mat =
     (let aco = (case p_Aco linha_perfil of Some a \<Rightarrow> a | None \<Rightarrow> ''A572-50'')
      in case df_mat aco of None \<Rightarrow> Inl (KeyError aco) | Some m \<Rightarrow> Inr (m_fu m))"

text \<open>\<open>df_materiais.loc["A394", "fc (kgf/cm2)"]\<close>, the shear stress of the bolts.\<close>

definition fv_parafuso_de :: "df_materiais \<Rightarrow> pyexn + real" where
  "fv_parafuso_de df_mat =
     (case df_mat ''A394'' of None \<Rightarrow> Inl (KeyError ''A394'') | Some m \<Rightarrow> Inr (m_fc m))"

text \<open>\<open>df[df["Perfil"].str.strip() == nome.strip()]\<close>: the rows of that name, in table order.\<close>

definition linhas_do_perfil :: "perfil list \<Rightarrow> string \<Rightarrow> perfil list" where
  "linhas_do_perfil df nome = filter (\<lambda>p. strip (p_Perfil p) = strip nome) df"

section \<open>Connection designer (\<open>utilitarios/ligacoes.py\<close>)\<close>

text \<open>
  The dictionary returned by \<open>dimensionar_ligacao\<close>; field \<open>lig_k\<close> is the key \<open>k\<close>
  (\<open>lig_viavel\<close> is \<open>ligacao_viavel\<close>).
\<close>

record ligacao =
  lig_viavel :: bool
  lig_np :: "int option"
  lig_forca_adm_cisalhamento :: real
  lig_forca_adm_esmagamento :: real
  lig_tx_lig :: real
  lig_d_furo :: real
  lig_area_parafuso :: real
  lig_fator_fp :: "real option"
  lig_planos :: int
  lig_coef_minoracao :: real

text \<open>The admissible shear force of \<open>np\<close> bolts (lines 82 to 84).\<close>

definition forca_adm_cisalhamento_de :: "real \<Rightarrow> int \<Rightarrow> real \<Rightarrow> real \<Rightarrow> int \<Rightarrow> real" where
  "forca_adm_cisalhamento_de coef n_par area_paraf fv n_planos =
     coef * of_int n_par * area_paraf * fv * of_int n_planos"

text \<open>
  The minimum bolt count of a leg (lines 64 to 73): the rounded \<open>Np min\<close> of the first row
  of that name; 4 when there is no such row or the value is missing (the exceptions are
  caught).
\<close>

definition np_min_montante :: "perfil list \<Rightarrow> string \<Rightarrow> int" where
  "np_min_montante df_perfis perfil_nome =
     (case linhas_do_perfil df_perfis perfil_nome of
        [] \<Rightarrow> 4
      | dados_perfil # _ \<Rightarrow>
          (case p_Np_min dados_perfil of None \<Rightarrow> 4 | Some v \<Rightarrow> py_round v))"

text \<open>
  The inner loop over the bearing factors (lines 89 to 119), for one bolt count.
  \<open>Inr None\<close>: the loop ended without returning.
\<close>

fun laco_fatores ::
  "real \<Rightarrow> real \<Rightarrow> real \<Rightarrow> real \<Rightarrow> real \<Rightarrow> int \<Rightarrow> real \<Rightarrow> real \<Rightarrow> int \<Rightarrow> real list
   \<Rightarrow> pyexn + ligacao option" where
  "laco_fatores forca coef fu d t n_par f_cis area_paraf n_planos [] = Inr None"
| "laco_fatores forca coef fu d t n_par f_cis area_paraf n_planos (fp # fps) =
     (let tensao_adm_esmagamento = coef * fp * fu;
          area_contato = of_int n_par * d * t
      in case pdiv \<bar>forca\<bar> area_contato of
           Inl e \<Rightarrow> Inl e
         | Inr tensao_solicitante_esmagamento \<Rightarrow>
             let f_esm = tensao_adm_esmagamento * area_contato
             in if tensao_solicitante_esmagamento \<le> tensao_adm_esmagamento then
                  (case pdiv \<bar>forca\<bar> f_cis of
                     Inl e \<Rightarrow> Inl e
                   | Inr tx_cisalhamento \<Rightarrow>
                       (case pdiv tensao_solicitante_esmagamento tensao_adm_esmagamento of
                          Inl e \<Rightarrow> Inl e
                        | Inr tx_esmagamento \<Rightarrow>
                            let tx_ligacao = max tx_cisalhamento tx_esmagamento
                            in if tx_ligacao \<le> 1 then
                                 Inr (Some \<lparr>lig_viavel = True, lig_np = Some n_par,
                                            lig_forca_adm_cisalhamento = f_cis,
                                            lig_forca_adm_esmagamento = f_esm,
                                            lig_tx_lig = tx_ligacao, lig_d_furo = d,
                                            lig_area_parafuso = area_paraf,
                                            lig_fator_fp = Some fp, lig_planos = n_planos,
                                            lig_coef_minoracao = coef\<rparr>)
                               else laco_fatores forca coef fu d t n_par f_cis area_paraf
                                      n_planos fps))
                else laco_fatores forca coef fu d t n_par f_cis area_paraf n_planos fps)"

text \<open>The outer loop over the bolt counts (lines 77 to 119).\<close>

fun laco_np ::
  "real \<Rightarrow> string \<Rightarrow> real \<Rightarrow> real \<Rightarrow> real \<Rightarrow> real \<Rightarrow> real \<Rightarrow> real \<Rightarrow> int \<Rightarrow> real list
   \<Rightarrow> int list \<Rightarrow> pyexn + ligacao option" where
  "laco_np forca tipo_base coef fv fu d t area_paraf n_planos fatores [] = Inr None"
| "laco_np forca tipo_base coef fv fu d t area_paraf n_planos fatores (n_par # resto) =
     (if tipo_base = ''montante'' \<and> n_par mod 2 \<noteq> 0 then
        laco_np forca tipo_base coef fv fu d t area_paraf n_planos fatores resto
      else
        let f_cis = forca_adm_cisalhamento_de coef n_par area_paraf fv n_planos
        in if \<bar>forca\<bar> > f_cis then
             laco_np forca tipo_base coef fv fu d t area_paraf n_planos fatores resto
           else
             (case laco_fatores forca coef fu d t n_par f_cis area_paraf n_planos fatores of
                Inl e \<Rightarrow> Inl e
              | Inr (Some r) \<Rightarrow> Inr (Some r)
              | Inr None \<Rightarrow>
                  laco_np forca tipo_base coef fv fu d t area_paraf n_planos fatores resto))"

text \<open>The record returned when no combination was accepted (lines 122 to 133).\<close>

definition ligacao_inviavel :: "real \<Rightarrow> real \<Rightarrow> int \<Rightarrow> real \<Rightarrow> ligacao" where
  "ligacao_inviavel d area_paraf n_planos coef =
     \<lparr>lig_viavel = False, lig_np = None, lig_forca_adm_cisalhamento = 0,
      lig_forca_adm_esmagamento = 0, lig_tx_lig = 999, lig_d_furo = d,
      lig_area_parafuso = area_paraf, lig_fator_fp = None, lig_planos = n_planos,
      lig_coef_minoracao = coef\<rparr>"

text \<open>\<open>d_furo = diametros_furos.get(tipo_base, 1.59)\<close> (line 58).\<close>

definition d_furo_de :: "(string \<rightharpoonup> real) \<Rightarrow> string \<Rightarrow> real" where
  "d_furo_de diametros_furos tipo_base =
     (case diametros_furos tipo_base of Some v \<Rightarrow> v | None \<Rightarrow> 1.59)"

text \<open>The first bolt count tried (lines 64 to 75): 1 for diagonals and horizontals.\<close>

definition np_min_de :: "string \<Rightarrow> perfil list \<Rightarrow> string \<Rightarrow> int" where
  "np_min_de tipo_base df_perfis perfil_nome =
     (if tipo_base = ''montante'' then np_min_montante df_perfis perfil_nome else 1)"

definition dimensionar_ligacao ::
  "real \<Rightarrow> string \<Rightarrow> string \<Rightarrow> real \<Rightarrow> (string \<rightharpoonup> real) \<Rightarrow> real \<Rightarrow> real
   \<Rightarrow> (string \<rightharpoonup> int) \<Rightarrow> (string \<rightharpoonup> int) \<Rightarrow> real list \<Rightarrow> perfil list \<Rightarrow> real
   \<Rightarrow> pyexn + ligacao" where
  "dimensionar_ligacao forca_axial tipo_barra perfil_nome espessura_aba diametros_furos
       fv_parafuso fu_peca limite_parafusos planos_cisalhamento fatores_esmagamento
       df_perfis coef =
     (let tipo_base = tipo_base_de tipo_barra;
          d = d_furo_de diametros_furos tipo_base;
          area_paraf = pi * (d / 2) ^ 2
      in case limite_parafusos tipo_base of
           None \<Rightarrow> Inl (KeyError tipo_base)
         | Some np_max \<Rightarrow>
             (case planos_cisalhamento tipo_base of
                None \<Rightarrow> Inl (KeyError tipo_base)
              | Some n_planos \<Rightarrow>
                  let np_min = np_min_de tipo_base df_perfis perfil_nome
                  in (case laco_np forca_axial tipo_base coef fv_parafuso fu_peca d
                             espessura_aba area_paraf n_planos fatores_esmagamento
                             [np_min..np_max] of
                        Inl e \<Rightarrow> Inl e
                      | Inr (Some r) \<Rightarrow> Inr r
                      | Inr None \<Rightarrow> Inr (ligacao_inviavel d area_paraf n_planos coef))))"

subsection \<open>The scan of the connection designer, one combination at a time\<close>

text \<open>
  The test that lines 85 to 107 apply to one pair of a bolt count and a bearing factor:
  \<open>Inr True\<close> when the pair is accepted (the function returns there), \<open>Inr False\<close>
  when it is passed over, \<open>Inl e\<close> when a division of the test raises.
\<close>

definition testa_combinacao ::
  "real \<Rightarrow> real \<Rightarrow> real \<Rightarrow> real \<Rightarrow> real \<Rightarrow> real \<Rightarrow> real \<Rightarrow> int \<Rightarrow> int \<times> real
   \<Rightarrow> pyexn + bool" where
  "testa_combinacao forca coef fv fu d t area_paraf n_planos c =
     (case c of (n_par, fp) \<Rightarrow>
        let f_cis = forca_adm_cisalhamento_de coef n_par area_paraf fv n_planos
        in if \<bar>forca\<bar> > f_cis then Inr False
           else
             (case pdiv \<bar>forca\<bar> (of_int n_par * d * t) of
                Inl e \<Rightarrow> Inl e
              | Inr tensao_sol \<Rightarrow>
                  if tensao_sol \<le> coef * fp * fu then
                    (case pdiv \<bar>forca\<bar> f_cis of
                       Inl e \<Rightarrow> Inl e
                     | Inr tx_cis \<Rightarrow>
                         (case pdiv tensao_sol (coef * fp * fu) of
                            Inl e \<Rightarrow> Inl e
                          | Inr tx_esm \<Rightarrow> Inr (max tx_cis tx_esm \<le> 1)))
                  else Inr False))"

text \<open>The record returned at an accepted pair (lines 108 to 119).\<close>

definition ligacao_aceita ::
  "real \<Rightarrow> real \<Rightarrow> real \<Rightarrow> real \<Rightarrow> real \<Rightarrow> real \<Rightarrow> real \<Rightarrow> int \<Rightarrow> int \<times> real \<Rightarrow> ligacao" where
  "ligacao_aceita forca coef fv fu d t area_paraf n_planos c =
     (case c of (n_par, fp) \<Rightarrow>
        \<lparr>lig_viavel = True, lig_np = Some n_par,
         lig_forca_adm_cisalhamento =
           forca_adm_cisalhamento_de coef n_par area_paraf fv n_planos,
         lig_forca_adm_esmagamento = coef * fp * fu * (of_int n_par * d * t),
         lig_tx_lig =
           max (\<bar>forca\<bar> / forca_adm_cisalhamento_de coef n_par area_paraf fv n_planos)
               (\<bar>forca\<bar> / (of_int n_par * d * t) / (coef * fp * fu)),
         lig_d_furo = d, lig_area_parafuso = area_paraf, lig_fator_fp = Some fp,
         lig_planos = n_planos, lig_coef_minoracao = coef\<rparr>)"

text \<open>
  The pairs in the order the two loops visit them: bolt counts ascending (odd counts
  left out for a leg), and for each the bearing factors in list order.
\<close>

definition combinacoes :: "string \<Rightarrow> int list \<Rightarrow> real list \<Rightarrow> (int \<times> real) list" where
  "combinacoes tipo_base ns fatores =
     concat (map (\<lambda>n. map (Pair n) fatores)
                 (filter (\<lambda>n. \<not> (tipo_base = ''montante'' \<and> n mod 2 \<noteq> 0)) ns))"

text \<open>
  A pair satisfies the shear and the bearing check when the force is within the
  admissible shear force and within the admissible bearing force, \<open>F \<le> Fc\<close> and
  \<open>F \<le> Fe\<close>, as the docstring of \<open>dimensionar_barras\<close> writes the two criteria.
\<close>

definition combinacao_atende ::
  "real \<Rightarrow> real \<Rightarrow> real \<Rightarrow> real \<Rightarrow> real \<Rightarrow> real \<Rightarrow> real \<Rightarrow> int \<Rightarrow> int \<times> real \<Rightarrow> bool" where
  "combinacao_atende forca coef fv fu d t area_paraf n_planos c =
     (case c of (n_par, fp) \<Rightarrow>
        \<bar>forca\<bar> \<le> forca_adm_cisalhamento_de coef n_par area_paraf fv n_planos
        \<and> \<bar>forca\<bar> \<le> coef * fp * fu * (of_int n_par * d * t))"

section \<open>Constants (\<open>utilitarios/constantes.py\<close>)\<close>

definition LIMITE_ESBELTEZ_TRACAO :: real where
  "LIMITE_ESBELTEZ_TRACAO = 375"

definition LIMITE_ESBELTEZ_MONTANTE :: real where
  "LIMITE_ESBELTEZ_MONTANTE = 150"

definition LIMITE_ESBELTEZ_DIAG_HORIZ :: real where
  "LIMITE_ESBELTEZ_DIAG_HORIZ = 200"

definition MODULO_ELASTICIDADE_ACO :: real where
  "MODULO_ELASTICIDADE_ACO = 2038894"

definition LIMITE_TAXA_TRABALHO_DIAG_HORIZ :: real where
  "LIMITE_TAXA_TRABALHO_DIAG_HORIZ = 0.90"

section \<open>Normative checks (\<open>utilitarios/verif_normativas.py\<close>)\<close>

definition calcular_esbeltez_corrigida :: "string \<Rightarrow> real \<Rightarrow> real \<Rightarrow> pyexn + real" where
  "calcular_esbeltez_corrigida tipo_barra comprimento raio_giracao =
     (case pdiv comprimento raio_giracao of
        Inl e \<Rightarrow> Inl e
      | Inr esbeltez \<Rightarrow>
          if str_startswith tipo_barra ''montante'' then Inr esbeltez
          else if esbeltez \<le> 120 then Inr (60 + 0.5 * esbeltez)
          else Inr esbeltez)"

definition corrigir_fy_por_flambagem_local :: "perfil \<Rightarrow> real \<Rightarrow> real \<Rightarrow> pyexn + real" where
  "corrigir_fy_por_flambagem_local dados_perfil modulo_elasticidade tensao_fy_nominal =
     (let fy_mpa = tensao_fy_nominal / 10.1972;
          e_mpa = modulo_elasticidade / 10.1972;
          largura_util = p_b dados_perfil - p_t dados_perfil - p_raio_lam dados_perfil
      in case pdiv largura_util (p_t dados_perfil) of
           Inl e \<Rightarrow> Inl e
         | Inr rel_w_t \<Rightarrow>
             (case psqrt fy_mpa of
                Inl e \<Rightarrow> Inl e
              | Inr raiz \<Rightarrow>
                  (case pdiv 209.6 raiz of
                     Inl e \<Rightarrow> Inl e
                   | Inr limite_inferior \<Rightarrow>
                       (case pdiv 377.28 raiz of
                          Inl e \<Rightarrow> Inl e
                        | Inr limite_superior \<Rightarrow>
                            if rel_w_t \<le> limite_inferior then Inr (fy_mpa * 10.1972)
                            else if rel_w_t \<le> limite_superior then
                              (case pdiv rel_w_t limite_inferior of
                                 Inl e \<Rightarrow> Inl e
                               | Inr q \<Rightarrow> Inr ((1.677 - 0.677 * q) * fy_mpa * 10.1972))
                            else
                              (case pdiv (0.0332 * pi ^ 2 * e_mpa) (rel_w_t ^ 2) of
                                 Inl e \<Rightarrow> Inl e
                               | Inr fy_corrigido_mpa \<Rightarrow>
                                   Inr (fy_corrigido_mpa * 10.1972))))))"

definition fa_asce :: "real \<Rightarrow> real \<Rightarrow> real \<Rightarrow> pyexn + real" where
  "fa_asce esbeltez_corrigida modulo_elasticidade tensao_fy_corrigida =
     (case pdiv (2 * modulo_elasticidade) tensao_fy_corrigida of
        Inl e \<Rightarrow> Inl e
      | Inr q \<Rightarrow>
          (case psqrt q of
             Inl e \<Rightarrow> Inl e
           | Inr raiz \<Rightarrow>
               let cc = pi * raiz
               in if esbeltez_corrigida \<le> cc then
                    (case pdiv esbeltez_corrigida cc of
                       Inl e \<Rightarrow> Inl e
                     | Inr x \<Rightarrow> Inr ((1 - 0.5 * x ^ 2) * tensao_fy_corrigida))
                  else pdiv (pi ^ 2 * modulo_elasticidade) (esbeltez_corrigida ^ 2)))"

definition verifica_flexao_simples ::
  "string \<Rightarrow> real \<Rightarrow> real \<Rightarrow> real \<Rightarrow> real \<Rightarrow> real \<Rightarrow> bool" where
  "verifica_flexao_simples tipo_barra angulo_graus comprimento modulo_resistencia_flexao_x
       tensao_fy coef =
     (if str_startswith tipo_barra ''montante'' then True
      else if \<not> ((0 \<le> angulo_graus \<and> angulo_graus \<le> 45)
                  \<or> (135 \<le> angulo_graus \<and> angulo_graus \<le> 225)
                  \<or> (315 \<le> angulo_graus \<and> angulo_graus \<le> 360)) then True
      else
        let momento_solicitante = (100 * comprimento) / 4;
            momento_resistente = modulo_resistencia_flexao_x * tensao_fy * coef
        in momento_solicitante \<le> momento_resistente)"

text \<open>
  The dictionary returned by \<open>calcula_tensao_axial_admissivel\<close>; field \<open>ax_k\<close> is the
  key \<open>k\<close>, and \<open>None\<close> is Python's \<open>None\<close>.
\<close>

record verif_axial =
  ax_solicitacao :: string
  ax_viavel :: bool
  ax_tensao_solicitante :: "real option"
  ax_area_bruta :: "real option"
  ax_area_efetiva :: "real option"
  ax_forca_axial_admissivel :: "real option"
  ax_taxa_trabalho :: "real option"
  ax_esbeltez_corrigida :: "real option"
  ax_tensao_fy_corrigida :: "real option"
  ax_Fa :: "real option"
  ax_Fa_reduzido :: "real option"
  ax_ft_admissivel :: "real option"
  ax_esbeltez_tracao :: "real option"

definition dicionario_inviavel :: "string \<Rightarrow> verif_axial" where
  "dicionario_inviavel solicitacao =
     \<lparr>ax_solicitacao = solicitacao, ax_viavel = False, ax_tensao_solicitante = None,
      ax_area_bruta = None, ax_area_efetiva = None, ax_forca_axial_admissivel = None,
      ax_taxa_trabalho = None, ax_esbeltez_corrigida = None,
      ax_tensao_fy_corrigida = None, ax_Fa = None, ax_Fa_reduzido = None,
      ax_ft_admissivel = None, ax_esbeltez_tracao = None\<rparr>"

text \<open>
  \<open>descontos_area_liquida\<close> is \<open>None\<close> or a dictionary from a base class to the number of
  holes deducted; without an entry the column \<open>Qtd furos An\<close> of the profile is used.
\<close>

definition calcular_area_liquida_efetiva ::
  "perfil \<Rightarrow> real \<Rightarrow> real \<Rightarrow> string \<Rightarrow> (string \<rightharpoonup> real) option \<Rightarrow> real" where
  "calcular_area_liquida_efetiva dados_perfil diametro_furo ct tipo_barra
       descontos_area_liquida =
     (let area_bruta = p_A dados_perfil;
          espessura_aba = p_t dados_perfil;
          n_furos =
            (case descontos_area_liquida of
               Some descontos \<Rightarrow>
                 (let tipo_base =
                        (if str_contains ''montante'' tipo_barra then Some ''montante''
                         else if str_contains ''diagonal'' tipo_barra then Some ''diagonal''
                         else if str_contains ''horizontal'' tipo_barra
                         then Some ''horizontal'' else None)
                  in case tipo_base of
                       None \<Rightarrow> p_Qtd_furos_An dados_perfil
                     | Some tb \<Rightarrow>
                         (case descontos tb of
                            Some n \<Rightarrow> n
                          | None \<Rightarrow> p_Qtd_furos_An dados_perfil))
             | None \<Rightarrow> p_Qtd_furos_An dados_perfil);
          diametro_ajustado = diametro_furo + 0.3175;
          area_liquida = area_bruta - n_furos * diametro_ajustado * espessura_aba
      in area_liquida * ct)"

text \<open>
  \<open>calcula_tensao_axial_admissivel\<close>, block by block. Block 1 (lines 312 to 326): the
  solicitation, the radius of gyration of the class and the real slenderness, 9999 for a
  radius of zero.
\<close>

definition solicitacao_de :: "real \<Rightarrow> string" where
  "solicitacao_de forca_axial = (if forca_axial > 0 then ''tracao'' else ''compressao'')"

definition raio_giracao_de :: "perfil \<Rightarrow> string \<Rightarrow> real" where
  "raio_giracao_de dados_perfil tipo_barra =
     (if str_startswith tipo_barra ''montante'' then p_rx dados_perfil
      else p_rz dados_perfil)"

definition esbeltez_real_de :: "real \<Rightarrow> real \<Rightarrow> real" where
  "esbeltez_real_de comprimento_efetivo raio_giracao =
     (if raio_giracao \<noteq> 0 then comprimento_efetivo / raio_giracao else 9999)"

text \<open>
  Block 2 (lines 330 to 348): \<open>Inr True\<close> when a slenderness limit is exceeded and the
  function returns \<open>dicionario_inviavel\<close>.
\<close>

definition esbeltez_excedida ::
  "string \<Rightarrow> bool \<Rightarrow> bool \<Rightarrow> string \<Rightarrow> real \<Rightarrow> real \<Rightarrow> pyexn + bool" where
  "esbeltez_excedida solicitacao limitar_esbeltez_tracao forcar_verificacao_compressao
       tipo_barra comprimento_efetivo raio_giracao =
     (let esbeltez_real = esbeltez_real_de comprimento_efetivo raio_giracao
      in if solicitacao = ''compressao'' \<or> forcar_verificacao_compressao then
           (if str_startswith tipo_barra ''montante'' then
              Inr (esbeltez_real > LIMITE_ESBELTEZ_MONTANTE)
            else
              (case calcular_esbeltez_corrigida tipo_barra comprimento_efetivo
                      raio_giracao of
                 Inl e \<Rightarrow> Inl e
               | Inr esbeltez_corrigida \<Rightarrow>
                   Inr (esbeltez_corrigida > LIMITE_ESBELTEZ_DIAG_HORIZ)))
         else if solicitacao = ''tracao'' then
           Inr (limitar_esbeltez_tracao \<and> esbeltez_real > LIMITE_ESBELTEZ_TRACAO)
         else Inr False)"

text \<open>Block 5 (lines 408 to 412): the utilization, 9999 without an admissible force.\<close>

definition taxa_trabalho_de :: "real \<Rightarrow> real \<Rightarrow> real" where
  "taxa_trabalho_de forca_axial forca_axial_admissivel =
     (if forca_axial_admissivel \<noteq> 0 \<and> forca_axial_admissivel > 1 / 10 ^ 9
      then \<bar>forca_axial\<bar> / forca_axial_admissivel else 9999)"

text \<open>Blocks 3 to 5 (lines 353 to 429), reached when no slenderness limit is exceeded.\<close>

definition capacidade_axial ::
  "perfil \<Rightarrow> real \<Rightarrow> string \<Rightarrow> real \<Rightarrow> real \<Rightarrow> real \<Rightarrow> real \<Rightarrow> real
   \<Rightarrow> (string \<rightharpoonup> real) option \<Rightarrow> pyexn + verif_axial" where
  "capacidade_axial dados_perfil forca_axial tipo_barra comprimento_efetivo coef
       diametro_furo modulo_elasticidade tensao_fy_nominal descontos_area_liquida =
     (let solicitacao = solicitacao_de forca_axial;
          ct = (if str_startswith tipo_barra ''montante'' then 1 else 0.9);
          area_bruta = p_A dados_perfil;
          raio_giracao = raio_giracao_de dados_perfil tipo_barra;
          area_efetiva = calcular_area_liquida_efetiva dados_perfil diametro_furo ct
                           tipo_barra descontos_area_liquida;
          secao_utilizada = (if solicitacao = ''compressao'' then area_bruta
                             else area_efetiva);
          tensao_solicitante = (if secao_utilizada \<noteq> 0
                                then \<bar>forca_axial\<bar> / secao_utilizada else 10 ^ 12)
      in if solicitacao = ''compressao'' then
           (case calcular_esbeltez_corrigida tipo_barra comprimento_efetivo raio_giracao of
              Inl e \<Rightarrow> Inl e
            | Inr esbeltez_corrigida \<Rightarrow>
                (case corrigir_fy_por_flambagem_local dados_perfil modulo_elasticidade
                        tensao_fy_nominal of
                   Inl e \<Rightarrow> Inl e
                 | Inr tensao_fy_corrigida \<Rightarrow>
                     (case fa_asce esbeltez_corrigida modulo_elasticidade
                             tensao_fy_corrigida of
                        Inl e \<Rightarrow> Inl e
                      | Inr tensao_adm_compressao \<Rightarrow>
                          let tensao_adm_reduzida = coef * tensao_adm_compressao;
                              viavel = (tensao_solicitante \<le> tensao_adm_reduzida);
                              forca_axial_admissivel = tensao_adm_reduzida * area_bruta
                          in Inr \<lparr>ax_solicitacao = solicitacao, ax_viavel = viavel,
                                  ax_tensao_solicitante = Some tensao_solicitante,
                                  ax_area_bruta = Some area_bruta,
                                  ax_area_efetiva = Some area_efetiva,
                                  ax_forca_axial_admissivel = Some forca_axial_admissivel,
                                  ax_taxa_trabalho =
                                    Some (taxa_trabalho_de forca_axial
                                            forca_axial_admissivel),
                                  ax_esbeltez_corrigida = Some esbeltez_corrigida,
                                  ax_tensao_fy_corrigida = Some tensao_fy_corrigida,
                                  ax_Fa = Some tensao_adm_compressao,
                                  ax_Fa_reduzido = Some tensao_adm_reduzida,
                                  ax_ft_admissivel = None,
                                  ax_esbeltez_tracao = None\<rparr>)))
         else
           (let ft_admissivel = coef * tensao_fy_nominal;
                esbeltez_tracao = esbeltez_real_de comprimento_efetivo raio_giracao;
                viavel = (tensao_solicitante \<le> ft_admissivel);
                forca_axial_admissivel = ft_admissivel * area_efetiva
            in Inr \<lparr>ax_solicitacao = solicitacao, ax_viavel = viavel,
                    ax_tensao_solicitante = Some tensao_solicitante,
                    ax_area_bruta = Some area_bruta,
                    ax_area_efetiva = Some area_efetiva,
                    ax_forca_axial_admissivel = Some forca_axial_admissivel,
                    ax_taxa_trabalho =
                      Some (taxa_trabalho_de forca_axial forca_axial_admissivel),
                    ax_esbeltez_corrigida = None,
                    ax_tensao_fy_corrigida = Some tensao_fy_nominal,
                    ax_Fa = None, ax_Fa_reduzido = None,
                    ax_ft_admissivel = Some ft_admissivel,
                    ax_esbeltez_tracao = Some esbeltez_tracao\<rparr>))"

definition calcula_tensao_axial_admissivel ::
  "df_materiais \<Rightarrow> perfil \<Rightarrow> real \<Rightarrow> string \<Rightarrow> real \<Rightarrow> real \<Rightarrow> real \<Rightarrow> real \<Rightarrow> bool
   \<Rightarrow> bool \<Rightarrow> (string \<rightharpoonup> real) option \<Rightarrow> pyexn + verif_axial" where
  "calcula_tensao_axial_admissivel df_mat dados_perfil forca_axial tipo_barra
       comprimento_efetivo coef diametro_furo modulo_elasticidade
       limitar_esbeltez_tracao forcar_verificacao_compressao descontos_area_liquida =
     (let solicitacao = solicitacao_de forca_axial;
          raio_giracao = raio_giracao_de dados_perfil tipo_barra
      in case obter_fy dados_perfil df_mat of
           Inl e \<Rightarrow> Inl e
         | Inr tensao_fy_nominal \<Rightarrow>
             (case esbeltez_excedida solicitacao limitar_esbeltez_tracao
                     forcar_verificacao_compressao tipo_barra comprimento_efetivo
                     raio_giracao of
                Inl e \<Rightarrow> Inl e
              | Inr True \<Rightarrow> Inr (dicionario_inviavel solicitacao)
              | Inr False \<Rightarrow>
                  capacidade_axial dados_perfil forca_axial tipo_barra comprimento_efetivo
                    coef diametro_furo modulo_elasticidade tensao_fy_nominal
                    descontos_area_liquida))"

text \<open>
  \<open>verificar_axial_flexao\<close> (lines 431 to 515): the larger of the axial utilization and
  of 0 or 999 for the bending check. \<open>comprimento\<close> is \<open>None\<close> when the caller omits it;
  the axial utilization is \<open>None\<close> for an infeasible record, and \<open>max\<close> of \<open>None\<close> and a
  float raises \<open>TypeError\<close>.
\<close>

definition verificar_axial_flexao ::
  "perfil \<Rightarrow> real \<Rightarrow> (string \<rightharpoonup> real) option \<Rightarrow> real \<Rightarrow> string \<Rightarrow> real option \<Rightarrow> real
   \<Rightarrow> df_materiais \<Rightarrow> (string \<rightharpoonup> real) option \<Rightarrow> pyexn + real" where
  "verificar_axial_flexao perfil forca descontos_area_liquida coef tipo_barra comprimento
       angulo_graus df_mat diametros_furos =
     (case comprimento of
        None \<Rightarrow> Inl (ValueError ''Comprimento obrigatorio para verificacao normativa'')
      | Some compr \<Rightarrow>
          let diam_furo = (case diametros_furos of
                             None \<Rightarrow> 1.59
                           | Some dfs \<Rightarrow> d_furo_de dfs ''montante'')
          in (case calcula_tensao_axial_admissivel df_mat perfil forca tipo_barra compr coef
                     diam_furo MODULO_ELASTICIDADE_ACO False True
                     descontos_area_liquida of
                Inl e \<Rightarrow> Inl e
              | Inr ver_axial \<Rightarrow>
                  (case obter_fy perfil df_mat of
                     Inl e \<Rightarrow> Inl e
                   | Inr fy \<Rightarrow>
                       let flex_ok = verifica_flexao_simples tipo_barra angulo_graus compr
                                       (p_Wx perfil) fy coef;
                           tx_flex = (if flex_ok then 0 else 999)
                       in (case ax_taxa_trabalho ver_axial of
                             None \<Rightarrow> Inl (TypeError ''max of NoneType and float'')
                           | Some tx_axial \<Rightarrow> Inr (max tx_axial tx_flex)))))"

section \<open>Data of the sizing pipeline (\<open>dimensionamento.py\<close>)\<close>

text \<open>
  The arguments of \<open>dimensionar_barras\<close> that stay the same during a run: the profile
  tables, the material table, the minoration coefficient, the dictionaries of the
  configuration and the mode \<open>interromper_se_inviavel\<close>.
\<close>

record config =
  cf_df_montantes :: "perfil list"
  cf_df_diagonais_horizontais :: "perfil list"
  cf_df_materiais :: df_materiais
  cf_df_perfis :: "perfil list"
  cf_coef :: real
  cf_diametros_furos :: "string \<rightharpoonup> real"
  cf_descontos_area_liquida :: "(string \<rightharpoonup> real) option"
  cf_limite_parafusos :: "string \<rightharpoonup> int"
  cf_planos_cisalhamento :: "string \<rightharpoonup> int"
  cf_fatores_esmagamento :: "real list"
  cf_interromper_se_inviavel :: bool

text \<open>
  The metadata of a bar, \<open>estrutura.barras_para_dimensionar[id]\<close>; field \<open>md_k\<close> is the
  key \<open>k\<close>, \<open>None\<close> a key that is absent.
\<close>

record metadados =
  md_tipo :: string
  md_comprimento :: real
  md_comprimento_destravado :: "real option"
  md_alfa_graus :: "real option"
  md_modulo :: "int option"
  md_y_min :: "real option"
  md_y_max :: "real option"
  md_base_modulo :: bool
  md_topo_modulo :: bool
  md_topo_estrutura :: bool
  md_perfil_escolhido :: "string option"
  md_t :: "real option"

text \<open>
  \<open>esforcos_por_hipotese\<close>: for each hypothesis, in insertion order, the force of each
  bar. Keys of a dictionary are distinct.
\<close>

type_synonym esforcos = "(string \<times> (string \<times> real) list) list"

text \<open>\<open>d[k] = v\<close> on a dictionary in insertion order.\<close>

fun alist_set :: "'k \<Rightarrow> 'v \<Rightarrow> ('k \<times> 'v) list \<Rightarrow> ('k \<times> 'v) list" where
  "alist_set k v [] = [(k, v)]"
| "alist_set k v ((k', v') # resto) =
     (if k = k' then (k, v) # resto else (k', v') # alist_set k v resto)"

text \<open>
  \<open>max(xs, key=f)\<close> and \<open>min(xs, key=f)\<close> return the first element whose key is
  largest or smallest; \<open>None\<close> stands for the empty sequence.
\<close>

fun py_max_key :: "('a \<Rightarrow> real) \<Rightarrow> 'a list \<Rightarrow> 'a option" where
  "py_max_key f [] = None"
| "py_max_key f (x # xs) = Some (foldl (\<lambda>melhor y. if f y > f melhor then y else melhor) x xs)"

fun py_min_key :: "('a \<Rightarrow> real) \<Rightarrow> 'a list \<Rightarrow> 'a option" where
  "py_min_key f [] = None"
| "py_min_key f (x # xs) = Some (foldl (\<lambda>melhor y. if f y < f melhor then y else melhor) x xs)"

text \<open>
  The value of the key \<open>verificacao_ligacao\<close>: the empty dictionary, the dictionary
  \<open>{"ligacao_viavel": False, "np": None}\<close> with which an extremity group is marked, or a
  record of \<open>dimensionar_ligacao\<close>.
\<close>

datatype ligdict = LigVazia | LigMarcada | LigCompleta ligacao


text \<open>
  The dictionary of one critical hypothesis of a bar once a profile is known; field
  \<open>hd_k\<close> is the key \<open>k\<close>. The keys of the axial record are merged into it
  (\<open>**verificacao_axial\<close>).
\<close>

record hip_dados =
  hd_solicitacao :: string
  hd_viavel :: bool
  hd_tensao_solicitante :: "real option"
  hd_area_bruta :: "real option"
  hd_area_efetiva :: "real option"
  hd_forca_axial_admissivel :: "real option"
  hd_taxa_trabalho :: "real option"
  hd_esbeltez_corrigida :: "real option"
  hd_tensao_fy_corrigida :: "real option"
  hd_Fa :: "real option"
  hd_Fa_reduzido :: "real option"
  hd_ft_admissivel :: "real option"
  hd_esbeltez_tracao :: "real option"
  hd_verificacao_ligacao :: ligdict
  hd_perfil_escolhido :: string
  hd_forca_axial :: real
  hd_tipo :: string
  hd_alfa :: real
  hd_raio :: "real option"
  hd_modulo_resistencia_flexao_x :: "real option"
  hd_modulo :: "int option"
  hd_comprimento :: real
  hd_comprimento_destravado :: "real option"
  hd_simulada :: bool

text \<open>
  An entry of \<open>melhores_por_hipotese\<close> after the sweep: the short dictionary of lines 525
  to 533 (profile \<open>NENHUM\<close>, gross area 0.0, not viable, with the force, the type, the
  angle and the length), or the dictionary of lines 536 to 552.
\<close>

datatype melhor = Nenhum real string real real | Viavel hip_dados

fun perfil_do_melhor :: "melhor \<Rightarrow> string" where
  "perfil_do_melhor (Nenhum _ _ _ _) = ''NENHUM''"
| "perfil_do_melhor (Viavel d) = hd_perfil_escolhido d"




section \<open>Steps 2 to 5 of \<open>dimensionar_barras\<close> (lines 312 to 734)\<close>

text \<open>\<open>filtrar_por_diametro_parafuso\<close> (\<open>io_excel.py\<close>): a missing \<open>D max\<close> is no limit.\<close>

definition filtrar_por_diametro_parafuso :: "perfil list \<Rightarrow> real \<Rightarrow> perfil list" where
  "filtrar_por_diametro_parafuso tabela diametro_cm =
     filter (\<lambda>p. case p_Dmax p of None \<Rightarrow> True | Some dmax \<Rightarrow> dmax \<ge> diametro_cm) tabela"

text \<open>The forces of one bar, by hypothesis (lines 326 to 330).\<close>

definition esforcos_da_barra :: "esforcos \<Rightarrow> string \<Rightarrow> (string \<times> real) list" where
  "esforcos_da_barra esf id_barra =
     concat (map (\<lambda>(hip, barras). case map_of barras id_barra of
                                       None \<Rightarrow> []
                                     | Some f \<Rightarrow> [(hip, f)]) esf)"

text \<open>
  A bar is exclusively under tension when the set of its solicitations is
  \<open>{"tracao"}\<close> (lines 288 to 292 and 315 to 317).
\<close>

definition exclusivamente_tracionada :: "esforcos \<Rightarrow> string \<Rightarrow> bool" where
  "exclusivamente_tracionada esf id_barra =
     (let fs = map snd (esforcos_da_barra esf id_barra)
      in fs \<noteq> [] \<and> list_all (\<lambda>f. f > 0) fs)"

text \<open>\<open>esforcos_por_hipotese.setdefault(nome, {})[id_barra] = v\<close>.\<close>

definition simula_hipotese :: "string \<Rightarrow> string \<Rightarrow> real \<Rightarrow> esforcos \<Rightarrow> esforcos" where
  "simula_hipotese nome id_barra v esf =
     (case map_of esf nome of
        None \<Rightarrow> esf @ [(nome, [(id_barra, v)])]
      | Some barras \<Rightarrow> alist_set nome (alist_set id_barra v barras) esf)"

text \<open>\<open>esforcos_por_hipotese[nome][id_barra]\<close>.\<close>

definition esforco_de :: "esforcos \<Rightarrow> string \<Rightarrow> string \<Rightarrow> pyexn + real" where
  "esforco_de esf nome id_barra =
     (case map_of esf nome of
        None \<Rightarrow> Inl (KeyError nome)
      | Some barras \<Rightarrow>
          (case map_of barras id_barra of
             None \<Rightarrow> Inl (KeyError id_barra)
           | Some f \<Rightarrow> Inr f))"

text \<open>
  The local variables of lines 322 to 399 for one bar: the forces with the simulated
  hypotheses added, the two critical hypotheses, the two forces kept, the lengths, the
  type, the angle, the table of the class filtered by bolt diameter, and the two flags
  of the slenderness limits.
\<close>

record preparo =
  pr_esforcos :: esforcos
  pr_hipotese_critica_tracao :: string
  pr_hipotese_critica_compressao :: string
  pr_barra_tem_forca_simulada :: bool
  pr_esforcos_filtrados :: "(string \<times> real) list"
  pr_comprimento_real :: real
  pr_comprimento_destravado :: real
  pr_tipo_barra :: string
  pr_angulo :: real
  pr_df_perf :: "perfil list"
  pr_limitar_esbeltez_tracao :: bool
  pr_forcar_verificacao_compressao :: bool

definition prepara_barra ::
  "config \<Rightarrow> esforcos \<Rightarrow> esforcos \<Rightarrow> string \<Rightarrow> metadados \<Rightarrow> pyexn + preparo" where
  "prepara_barra cf esf_inicial esf id_barra dados_barra =
     (let esforcos_barra = esforcos_da_barra esf id_barra;
          tracao = map_option fst
                     (py_max_key snd (filter (\<lambda>(hip, f). f > 0) esforcos_barra));
          compressao = map_option fst
                         (py_min_key snd (filter (\<lambda>(hip, f). f < 0) esforcos_barra));
          sem_tracao = (tracao = None \<or> tracao = Some []);
          esforcos_barra1 = (if sem_tracao
                             then alist_set ''hip_0_t'' (1 / 100) esforcos_barra
                             else esforcos_barra);
          esf1 = (if sem_tracao then simula_hipotese ''hip_0_t'' id_barra (1 / 100) esf
                  else esf);
          hipotese_critica_tracao = (if sem_tracao then ''hip_0_t'' else the tracao);
          sem_compressao = (compressao = None \<or> compressao = Some []);
          esforcos_barra2 = (if sem_compressao
                             then alist_set ''hip_0_c'' (- (1 / 100)) esforcos_barra1
                             else esforcos_barra1);
          esf2 = (if sem_compressao
                  then simula_hipotese ''hip_0_c'' id_barra (- (1 / 100)) esf1
                  else esf1);
          hipotese_critica_compressao = (if sem_compressao then ''hip_0_c''
                                         else the compressao);
          simulada = (map_of esforcos_barra2 ''hip_0_t'' \<noteq> None
                      \<or> map_of esforcos_barra2 ''hip_0_c'' \<noteq> None)
      in case map_of esforcos_barra2 hipotese_critica_tracao of
           None \<Rightarrow> Inl (KeyError hipotese_critica_tracao)
         | Some f_t \<Rightarrow>
             (case map_of esforcos_barra2 hipotese_critica_compressao of
                None \<Rightarrow> Inl (KeyError hipotese_critica_compressao)
              | Some f_c \<Rightarrow>
                  let filtrados = alist_set hipotese_critica_compressao f_c
                                    (alist_set hipotese_critica_tracao f_t []);
                      comprimento_real = md_comprimento dados_barra;
                      tipo_barra = md_tipo dados_barra;
                      angulo = (case md_alfa_graus dados_barra of
                                  None \<Rightarrow> 0 | Some a \<Rightarrow> a);
                      comprimento_destravado =
                        (if str_startswith tipo_barra ''montante''
                         then (case md_comprimento_destravado dados_barra of
                                 None \<Rightarrow> comprimento_real | Some c \<Rightarrow> c)
                         else comprimento_real);
                      df_perf0 = (if str_startswith tipo_barra ''montante''
                                  then cf_df_montantes cf
                                  else cf_df_diagonais_horizontais cf);
                      diametro_furo = d_furo_de (cf_diametros_furos cf)
                                        (tipo_base_de tipo_barra);
                      limitar = exclusivamente_tracionada esf_inicial id_barra
                  in Inr \<lparr>pr_esforcos = esf2,
                          pr_hipotese_critica_tracao = hipotese_critica_tracao,
                          pr_hipotese_critica_compressao = hipotese_critica_compressao,
                          pr_barra_tem_forca_simulada = simulada,
                          pr_esforcos_filtrados = filtrados,
                          pr_comprimento_real = comprimento_real,
                          pr_comprimento_destravado = comprimento_destravado,
                          pr_tipo_barra = tipo_barra,
                          pr_angulo = angulo,
                          pr_df_perf = filtrar_por_diametro_parafuso df_perf0 diametro_furo,
                          pr_limitar_esbeltez_tracao = limitar,
                          pr_forcar_verificacao_compressao = (\<not> limitar)\<rparr>))"

subsection \<open>Step 3: the sweep of the profiles (lines 405 to 552)\<close>

text \<open>A profile that passed every check (lines 508 to 521).\<close>

record candidato =
  c_perfil :: string
  c_peso :: real
  c_area :: real
  c_raio :: real
  c_verificacao_axial :: verif_axial
  c_modulo_resistencia_flexao_x :: real

definition candidato_de :: "string \<Rightarrow> perfil \<Rightarrow> verif_axial \<Rightarrow> candidato" where
  "candidato_de tipo_barra dados_perfil verificacao_axial =
     \<lparr>c_perfil = p_Perfil dados_perfil, c_peso = p_Peso dados_perfil,
      c_area = p_A dados_perfil,
      c_raio = (if str_startswith tipo_barra ''montante'' then p_rx dados_perfil
                else p_rz dados_perfil),
      c_verificacao_axial = verificacao_axial,
      c_modulo_resistencia_flexao_x = p_Wx dados_perfil\<rparr>"

text \<open>
  The last check (lines 502 to 505): a diagonal or horizontal whose axial utilization
  is above 0.90 is rejected.
\<close>

definition limite_taxa_trabalho ::
  "string \<Rightarrow> perfil \<Rightarrow> verif_axial \<Rightarrow> pyexn + candidato option" where
  "limite_taxa_trabalho tipo_barra dados_perfil verificacao_axial =
     (if str_startswith tipo_barra ''diagonal'' \<or> str_startswith tipo_barra ''horizontal''
      then (case ax_taxa_trabalho verificacao_axial of
              None \<Rightarrow> Inl (TypeError ''NoneType > float'')
            | Some taxa \<Rightarrow>
                if taxa > LIMITE_TAXA_TRABALHO_DIAG_HORIZ then Inr None
                else Inr (Some (candidato_de tipo_barra dados_perfil verificacao_axial)))
      else Inr (Some (candidato_de tipo_barra dados_perfil verificacao_axial)))"

text \<open>
  The body of the loop over the rows, for one row: the candidate when the profile passes,
  and the record of its connection when one was designed (the variable
  \<open>verificacao_ligacao\<close>).
\<close>

definition verifica_perfil ::
  "config \<Rightarrow> real \<Rightarrow> string \<Rightarrow> real \<Rightarrow> real \<Rightarrow> bool \<Rightarrow> bool \<Rightarrow> perfil
   \<Rightarrow> pyexn + (candidato option \<times> ligacao option)" where
  "verifica_perfil cf forca_axial tipo_barra comprimento angulo limitar forcar dados_perfil =
     (let diametro_furo = d_furo_de (cf_diametros_furos cf) (tipo_base_de tipo_barra);
          largura_util = p_b dados_perfil - p_t dados_perfil - p_raio_lam dados_perfil
      in case pdiv largura_util (p_t dados_perfil) of
           Inl e \<Rightarrow> Inl e
         | Inr rel_w_t \<Rightarrow>
             if rel_w_t > 25 then Inr (None, None)
             else
               (case calcula_tensao_axial_admissivel (cf_df_materiais cf) dados_perfil
                       forca_axial tipo_barra comprimento (cf_coef cf) diametro_furo
                       MODULO_ELASTICIDADE_ACO limitar forcar
                       (cf_descontos_area_liquida cf) of
                  Inl e \<Rightarrow> Inl e
                | Inr verificacao_axial \<Rightarrow>
                    if \<not> ax_viavel verificacao_axial then Inr (None, None)
                    else
                      (case obter_fy dados_perfil (cf_df_materiais cf) of
                         Inl e \<Rightarrow> Inl e
                       | Inr tensao_fy \<Rightarrow>
                           if \<not> verifica_flexao_simples tipo_barra angulo comprimento
                                  (p_Wx dados_perfil) tensao_fy (cf_coef cf)
                           then Inr (None, None)
                           else if \<not> str_startswith tipo_barra ''montante'' then
                             (case fv_parafuso_de (cf_df_materiais cf) of
                                Inl e \<Rightarrow> Inl e
                              | Inr fv \<Rightarrow>
                                  (case obter_fu dados_perfil (cf_df_materiais cf) of
                                     Inl e \<Rightarrow> Inl e
                                   | Inr fu \<Rightarrow>
                                       (case dimensionar_ligacao forca_axial tipo_barra
                                               (p_Perfil dados_perfil) (p_t dados_perfil)
                                               (cf_diametros_furos cf) fv fu
                                               (cf_limite_parafusos cf)
                                               (cf_planos_cisalhamento cf)
                                               (cf_fatores_esmagamento cf)
                                               (cf_df_perfis cf) (cf_coef cf) of
                                          Inl e \<Rightarrow> Inl e
                                        | Inr lig \<Rightarrow>
                                            let f_cis = lig_forca_adm_cisalhamento lig;
                                                f_esm = lig_forca_adm_esmagamento lig
                                            in if f_cis = 0 \<or> f_esm = 0
                                               then Inr (None, Some lig)
                                               else if max (\<bar>forca_axial\<bar> / f_cis)
                                                           (\<bar>forca_axial\<bar> / f_esm) > 1
                                               then Inr (None, Some lig)
                                               else
                                                 (case limite_taxa_trabalho tipo_barra
                                                         dados_perfil verificacao_axial of
                                                    Inl e \<Rightarrow> Inl e
                                                  | Inr c \<Rightarrow> Inr (c, Some lig)))))
                           else
                             (case limite_taxa_trabalho tipo_barra dados_perfil
                                     verificacao_axial of
                                Inl e \<Rightarrow> Inl e
                              | Inr c \<Rightarrow> Inr (c, None)))))"

fun varredura ::
  "config \<Rightarrow> real \<Rightarrow> string \<Rightarrow> real \<Rightarrow> real \<Rightarrow> bool \<Rightarrow> bool \<Rightarrow> perfil list
   \<Rightarrow> candidato list \<Rightarrow> ligacao option \<Rightarrow> pyexn + (candidato list \<times> ligacao option)" where
  "varredura cf forca_axial tipo_barra comprimento angulo limitar forcar [] perfis_viaveis
       verificacao_ligacao = Inr (perfis_viaveis, verificacao_ligacao)"
| "varredura cf forca_axial tipo_barra comprimento angulo limitar forcar
       (dados_perfil # resto) perfis_viaveis verificacao_ligacao =
     (case verifica_perfil cf forca_axial tipo_barra comprimento angulo limitar forcar
             dados_perfil of
        Inl e \<Rightarrow> Inl e
      | Inr (c, lig) \<Rightarrow>
          varredura cf forca_axial tipo_barra comprimento angulo limitar forcar resto
            (case c of None \<Rightarrow> perfis_viaveis | Some x \<Rightarrow> perfis_viaveis @ [x])
            (case lig of None \<Rightarrow> verificacao_ligacao | Some l \<Rightarrow> Some l))"

text \<open>
  The entry of \<open>melhores_por_hipotese\<close> (lines 524 to 552): the lightest of the viable
  profiles, the first one among equal masses.
\<close>

definition melhor_da_hipotese ::
  "metadados \<Rightarrow> preparo \<Rightarrow> real \<Rightarrow> candidato list \<Rightarrow> ligacao option \<Rightarrow> melhor" where
  "melhor_da_hipotese dados_barra pr forca_axial perfis_viaveis verificacao_ligacao =
     (case py_min_key c_peso perfis_viaveis of
        None \<Rightarrow> Nenhum forca_axial (pr_tipo_barra pr) (pr_angulo pr)
                  (pr_comprimento_destravado pr)
      | Some melhor \<Rightarrow>
          let va = c_verificacao_axial melhor
          in Viavel
               \<lparr>hd_solicitacao = ax_solicitacao va, hd_viavel = True,
                hd_tensao_solicitante = ax_tensao_solicitante va,
                hd_area_bruta = Some (c_area melhor),
                hd_area_efetiva = ax_area_efetiva va,
                hd_forca_axial_admissivel = ax_forca_axial_admissivel va,
                hd_taxa_trabalho = ax_taxa_trabalho va,
                hd_esbeltez_corrigida = ax_esbeltez_corrigida va,
                hd_tensao_fy_corrigida = ax_tensao_fy_corrigida va,
                hd_Fa = ax_Fa va, hd_Fa_reduzido = ax_Fa_reduzido va,
                hd_ft_admissivel = ax_ft_admissivel va,
                hd_esbeltez_tracao = ax_esbeltez_tracao va,
                hd_verificacao_ligacao =
                  (if \<not> str_startswith (pr_tipo_barra pr) ''montante''
                   then (case verificacao_ligacao of
                           Some l \<Rightarrow> LigCompleta l | None \<Rightarrow> LigVazia)
                   else LigVazia),
                hd_perfil_escolhido = c_perfil melhor,
                hd_forca_axial = forca_axial, hd_tipo = pr_tipo_barra pr,
                hd_alfa = pr_angulo pr, hd_raio = Some (c_raio melhor),
                hd_modulo_resistencia_flexao_x =
                  Some (c_modulo_resistencia_flexao_x melhor),
                hd_modulo = md_modulo dados_barra,
                hd_comprimento = pr_comprimento_real pr,
                hd_comprimento_destravado = Some (pr_comprimento_destravado pr),
                hd_simulada = False\<rparr>)"

text \<open>
  The loop over the critical hypotheses with the check of lines 553 to 565 after each
  one. The flag returned says whether line 564 registered the bar as \<open>NENHUM\<close>.
\<close>

fun laco_hipoteses ::
  "config \<Rightarrow> string \<Rightarrow> metadados \<Rightarrow> preparo \<Rightarrow> (string \<times> real) list
   \<Rightarrow> (string \<times> melhor) list \<Rightarrow> bool \<Rightarrow> pyexn + ((string \<times> melhor) list \<times> bool)" where
  "laco_hipoteses cf id_barra dados_barra pr [] melhores registrada =
     Inr (melhores, registrada)"
| "laco_hipoteses cf id_barra dados_barra pr ((nome_hipotese, f) # resto) melhores
       registrada =
     (case esforco_de (pr_esforcos pr) nome_hipotese id_barra of
        Inl e \<Rightarrow> Inl e
      | Inr forca_axial \<Rightarrow>
          (case varredura cf forca_axial (pr_tipo_barra pr) (pr_comprimento_destravado pr)
                  (pr_angulo pr) (pr_limitar_esbeltez_tracao pr)
                  (pr_forcar_verificacao_compressao pr) (pr_df_perf pr) [] None of
             Inl e \<Rightarrow> Inl e
           | Inr (perfis_viaveis, verificacao_ligacao) \<Rightarrow>
               let melhores1 = alist_set nome_hipotese
                                 (melhor_da_hipotese dados_barra pr forca_axial
                                    perfis_viaveis verificacao_ligacao) melhores
               in if list_all (\<lambda>(n, d). perfil_do_melhor d = ''NENHUM'') melhores1 then
                    (if cf_interromper_se_inviavel cf then
                       Inl (ValueError (''Nenhum perfil viavel para a barra '' @ id_barra))
                     else if melhores1 = [] then
                       laco_hipoteses cf id_barra dados_barra pr resto melhores1 True
                     else laco_hipoteses cf id_barra dados_barra pr resto melhores1
                            registrada)
                  else laco_hipoteses cf id_barra dados_barra pr resto melhores1
                         registrada))"

subsection \<open>Step 4: the critical hypothesis (lines 567 to 604)\<close>






subsection \<open>Step 5: the final profile on both hypotheses (lines 606 to 719)\<close>












section \<open>Inputs for the examples\<close>

text \<open>
  Hole diameter 2 cm for every class (so that a bolt has area \<open>pi\<close>), at most 8 bolts for
  a leg and 2 for a diagonal or horizontal, one shear plane, and the two bearing factors
  of \<open>main.py\<close>, \<open>1.3 / 1.2\<close> and \<open>1.25\<close>.
\<close>

definition ex_furos :: "string \<rightharpoonup> real" where
  "ex_furos = [''montante'' \<mapsto> 2, ''diagonal'' \<mapsto> 2, ''horizontal'' \<mapsto> 2]"

definition ex_limite :: "string \<rightharpoonup> int" where
  "ex_limite = [''montante'' \<mapsto> 8, ''diagonal'' \<mapsto> 2, ''horizontal'' \<mapsto> 2]"

definition ex_planos :: "string \<rightharpoonup> int" where
  "ex_planos = [''montante'' \<mapsto> 1, ''diagonal'' \<mapsto> 1, ''horizontal'' \<mapsto> 1]"

definition ex_fatores :: "real list" where
  "ex_fatores = [13 / 12, 5 / 4]"

text \<open>
  Two steel grades, the one of the profiles and the one of the bolts, and one angle
  profile of 50 mm by 5 mm.
\<close>

definition ex_materiais :: df_materiais where
  "ex_materiais = [''A572-50'' \<mapsto> \<lparr>m_fy = 3500, m_fu = 4000, m_fc = 0\<rparr>,
                   ''A394'' \<mapsto> \<lparr>m_fy = 0, m_fu = 0, m_fc = 1000\<rparr>]"

definition ex_perfil :: perfil where
  "ex_perfil = \<lparr>p_Perfil = ''L 50x50x5'', p_A = 4.8, p_rx = 1.5, p_rz = 1, p_b = 5,
                 p_t = 0.5, p_raio_lam = 0.5, p_Wx = 3, p_Peso = 3.77, p_Dmax = Some 2,
                 p_Notas = Some ''OK!'', p_Np_min = Some 2, p_Aco = Some ''A572-50'',
                 p_Qtd_furos_An = 1\<rparr>"


text \<open>
  A configuration with that single profile in every catalogue, one hole discounted from
  the net area of diagonals and horizontals, and \<open>interromper_se_inviavel = False\<close>.
\<close>

definition ex_config :: config where
  "ex_config = \<lparr>cf_df_montantes = [ex_perfil], cf_df_diagonais_horizontais = [ex_perfil],
                 cf_df_materiais = ex_materiais, cf_df_perfis = [ex_perfil],
                 cf_coef = 9 / 10, cf_diametros_furos = ex_furos,
                 cf_descontos_area_liquida = Some [''diagonal'' \<mapsto> 1, ''horizontal'' \<mapsto> 1],
                 cf_limite_parafusos = ex_limite, cf_planos_cisalhamento = ex_planos,
                 cf_fatores_esmagamento = ex_fatores,
                 cf_interromper_se_inviavel = False\<rparr>"







text \<open>
  The leg carries 1000 kgf of tension in the hypothesis \<open>H1\<close> and 1000 kgf of compression
  in the hypothesis \<open>H2\<close>.
\<close>

definition ex_montante :: metadados where
  "ex_montante = \<lparr>md_tipo = ''montante_esq'', md_comprimento = 60,
                   md_comprimento_destravado = None, md_alfa_graus = Some 90,
                   md_modulo = Some 1, md_y_min = Some 0, md_y_max = Some 60,
                   md_base_modulo = False, md_topo_modulo = False,
                   md_topo_estrutura = False, md_perfil_escolhido = None,
                   md_t = None\<rparr>"

definition ex_esforcos_montante :: esforcos where
  "ex_esforcos_montante = [(''H1'', [(''7'', 1000)]), (''H2'', [(''7'', - 1000)])]"





text \<open>The local variables of the leg before the sweep.\<close>

definition ex_preparo_montante :: preparo where
  "ex_preparo_montante = \<lparr>pr_esforcos = ex_esforcos_montante,
          pr_hipotese_critica_tracao = ''H1'',
          pr_hipotese_critica_compressao = ''H2'',
          pr_barra_tem_forca_simulada = False,
          pr_esforcos_filtrados = [(''H1'', 1000), (''H2'', - 1000)],
          pr_comprimento_real = 60, pr_comprimento_destravado = 60,
          pr_tipo_barra = ''montante_esq'', pr_angulo = 90,
          pr_df_perf = [ex_perfil],
          pr_limitar_esbeltez_tracao = False,
          pr_forcar_verificacao_compressao = True\<rparr>"

section \<open>Properties of the connection designer\<close>

text \<open>
  C9. For fixed positive minoration coefficient, bolt area, bolt shear stress and number
  of shear planes, the admissible shear force that the connection designer computes for
  a bolt count (coefficient times bolt count times bolt area times shear stress times
  planes) is strictly increasing in the bolt count.
\<close>

theorem forca_adm_cisalhamento_strict_mono:
  assumes "0 < coef" and "0 < area_paraf" and "0 < fv" and "0 < n_planos"
    and "n1 < n2"
  shows "forca_adm_cisalhamento_de coef n1 area_paraf fv n_planos
       < forca_adm_cisalhamento_de coef n2 area_paraf fv n_planos"
proof -
  have k: "0 < coef * area_paraf * fv * of_int n_planos"
    using assms by simp
  have "(of_int n1 :: real) < of_int n2"
    using assms(5) by simp
  then have "of_int n1 * (coef * area_paraf * fv * of_int n_planos)
           < of_int n2 * (coef * area_paraf * fv * of_int n_planos)"
    using k by (rule mult_strict_right_mono)
  then show ?thesis
    by (simp add: forca_adm_cisalhamento_de_def mult_ac)
qed

theorem forca_adm_cisalhamento_strict_mono_witness:
  "(0::real) < 9 / 10 \<and> (0::real) < 2 \<and> (0::real) < 1000 \<and> (0::int) < 1 \<and> (2::int) < 3
   \<and> forca_adm_cisalhamento_de (9 / 10) 2 2 1000 1
     < forca_adm_cisalhamento_de (9 / 10) 3 2 1000 1"
  using forca_adm_cisalhamento_strict_mono [of "9 / 10" 2 1000 1 2 3] by simp

subsection \<open>The two loops against the scan\<close>


lemma laco_fatores_Some:
  assumes "laco_fatores forca coef fu d t n (forca_adm_cisalhamento_de coef n area_paraf fv n_planos) area_paraf n_planos fps = Inr (Some r)"
    and "\<not> \<bar>forca\<bar> > forca_adm_cisalhamento_de coef n area_paraf fv n_planos"
  shows "\<exists>pre fp post. fps = pre @ fp # post
           \<and> (\<forall>x\<in>set pre. testa_combinacao forca coef fv fu d t area_paraf n_planos (n, x) = Inr False)
           \<and> testa_combinacao forca coef fv fu d t area_paraf n_planos (n, fp) = Inr True
           \<and> r = ligacao_aceita forca coef fv fu d t area_paraf n_planos (n, fp)"
  using assms
proof (induction fps)
  case Nil
  then show ?case by simp
next
  case (Cons a fps)
  show ?case
  proof (cases "testa_combinacao forca coef fv fu d t area_paraf n_planos (n, a) = Inr True")
    case True
    with Cons.prems have "r = ligacao_aceita forca coef fv fu d t area_paraf n_planos (n, a)"
      by (auto simp: testa_combinacao_def ligacao_aceita_def Let_def pdiv_def split: sum.splits if_splits)
    with True show ?thesis by (intro exI[of _ "[]"] exI[of _ a] exI[of _ fps]) simp
  next
    case False
    with Cons.prems have t: "testa_combinacao forca coef fv fu d t area_paraf n_planos (n, a) = Inr False"
      and rest: "laco_fatores forca coef fu d t n (forca_adm_cisalhamento_de coef n area_paraf fv n_planos) area_paraf n_planos fps = Inr (Some r)"
      by (auto simp: testa_combinacao_def Let_def pdiv_def split: sum.splits if_splits)
    from Cons.IH[OF rest Cons.prems(2)] obtain pre fp post where
      "fps = pre @ fp # post" 
      "\<forall>x\<in>set pre. testa_combinacao forca coef fv fu d t area_paraf n_planos (n, x) = Inr False"
      "testa_combinacao forca coef fv fu d t area_paraf n_planos (n, fp) = Inr True"
      "r = ligacao_aceita forca coef fv fu d t area_paraf n_planos (n, fp)" by blast
    with t show ?thesis
      by (intro exI[of _ "a # pre"] exI[of _ fp] exI[of _ post]) simp
  qed
qed

lemma laco_fatores_None:
  assumes "laco_fatores forca coef fu d t n (forca_adm_cisalhamento_de coef n area_paraf fv n_planos) area_paraf n_planos fps = Inr None"
    and "\<not> \<bar>forca\<bar> > forca_adm_cisalhamento_de coef n area_paraf fv n_planos"
  shows "\<forall>x\<in>set fps. testa_combinacao forca coef fv fu d t area_paraf n_planos (n, x) = Inr False"
  using assms
proof (induction fps)
  case Nil
  then show ?case by simp
next
  case (Cons a fps)
  then show ?case
    by (auto simp: testa_combinacao_def Let_def pdiv_def split: sum.splits if_splits)
qed




lemma combinacoes_Nil [simp]: "combinacoes tb [] fs = []"
  by (simp add: combinacoes_def)

lemma combinacoes_Cons:
  "combinacoes tb (n # ns) fs =
     (if tb = ''montante'' \<and> n mod 2 \<noteq> 0 then combinacoes tb ns fs
      else map (Pair n) fs @ combinacoes tb ns fs)"
  by (simp add: combinacoes_def)

lemma testa_cisalhamento_falha:
  "\<bar>forca\<bar> > forca_adm_cisalhamento_de coef n area_paraf fv n_planos
   \<Longrightarrow> testa_combinacao forca coef fv fu d t area_paraf n_planos (n, fp) = Inr False"
  by (simp add: testa_combinacao_def)

lemma laco_np_impar:
  "tb = ''montante'' \<and> n mod 2 \<noteq> 0 \<Longrightarrow>
   laco_np forca tb coef fv fu d t area_paraf n_planos fatores (n # ns)
   = laco_np forca tb coef fv fu d t area_paraf n_planos fatores ns"
  by simp

lemma laco_np_cisalhamento:
  "\<not> (tb = ''montante'' \<and> n mod 2 \<noteq> 0) \<Longrightarrow>
   \<bar>forca\<bar> > forca_adm_cisalhamento_de coef n area_paraf fv n_planos \<Longrightarrow>
   laco_np forca tb coef fv fu d t area_paraf n_planos fatores (n # ns)
   = laco_np forca tb coef fv fu d t area_paraf n_planos fatores ns"
  by auto

lemma laco_np_esmagamento:
  "\<not> (tb = ''montante'' \<and> n mod 2 \<noteq> 0) \<Longrightarrow>
   \<not> \<bar>forca\<bar> > forca_adm_cisalhamento_de coef n area_paraf fv n_planos \<Longrightarrow>
   laco_np forca tb coef fv fu d t area_paraf n_planos fatores (n # ns)
   = (case laco_fatores forca coef fu d t n
             (forca_adm_cisalhamento_de coef n area_paraf fv n_planos)
             area_paraf n_planos fatores of
        Inl e \<Rightarrow> Inl e
      | Inr (Some r) \<Rightarrow> Inr (Some r)
      | Inr None \<Rightarrow> laco_np forca tb coef fv fu d t area_paraf n_planos fatores ns)"
  by (auto simp: Let_def)

lemma laco_np_None:
  assumes "laco_np forca tb coef fv fu d t area_paraf n_planos fatores ns = Inr None"
  shows "\<forall>c\<in>set (combinacoes tb ns fatores).
           testa_combinacao forca coef fv fu d t area_paraf n_planos c = Inr False"
  using assms
proof (induction ns)
  case Nil
  then show ?case by simp
next
  case (Cons n ns)
  show ?case
  proof (cases "tb = ''montante'' \<and> n mod 2 \<noteq> 0")
    case True
    with Cons show ?thesis by (simp add: combinacoes_Cons laco_np_impar del: laco_np.simps)
  next
    case par: False
    show ?thesis
    proof (cases "\<bar>forca\<bar> > forca_adm_cisalhamento_de coef n area_paraf fv n_planos")
      case True
      with par Cons.prems have "laco_np forca tb coef fv fu d t area_paraf n_planos fatores ns = Inr None"
        by (simp add: laco_np_cisalhamento del: laco_np.simps)
      from Cons.IH[OF this] True par show ?thesis
        by (auto simp: combinacoes_Cons testa_cisalhamento_falha)
    next
      case False
      with par Cons.prems have
        a: "laco_fatores forca coef fu d t n (forca_adm_cisalhamento_de coef n area_paraf fv n_planos) area_paraf n_planos fatores = Inr None"
        and b: "laco_np forca tb coef fv fu d t area_paraf n_planos fatores ns = Inr None"
        by (auto simp: laco_np_esmagamento simp del: laco_np.simps split: sum.splits option.splits)
      from laco_fatores_None[OF a False] Cons.IH[OF b] par show ?thesis
        by (auto simp: combinacoes_Cons)
    qed
  qed
qed

lemma laco_np_Some:
  assumes "laco_np forca tb coef fv fu d t area_paraf n_planos fatores ns = Inr (Some r)"
  shows "\<exists>pre c post. combinacoes tb ns fatores = pre @ c # post
           \<and> (\<forall>x\<in>set pre. testa_combinacao forca coef fv fu d t area_paraf n_planos x = Inr False)
           \<and> testa_combinacao forca coef fv fu d t area_paraf n_planos c = Inr True
           \<and> r = ligacao_aceita forca coef fv fu d t area_paraf n_planos c"
  using assms
proof (induction ns)
  case Nil
  then show ?case by simp
next
  case (Cons n ns)
  let ?T = "testa_combinacao forca coef fv fu d t area_paraf n_planos"
  let ?A = "ligacao_aceita forca coef fv fu d t area_paraf n_planos"
  show ?case
  proof (cases "tb = ''montante'' \<and> n mod 2 \<noteq> 0")
    case True
    with Cons show ?thesis by (simp add: combinacoes_Cons laco_np_impar del: laco_np.simps)
  next
    case par: False
    show ?thesis
    proof (cases "\<bar>forca\<bar> > forca_adm_cisalhamento_de coef n area_paraf fv n_planos")
      case True
      with par Cons.prems have "laco_np forca tb coef fv fu d t area_paraf n_planos fatores ns = Inr (Some r)"
        by (simp add: laco_np_cisalhamento del: laco_np.simps)
      from Cons.IH[OF this] obtain pre c post where
        h: "combinacoes tb ns fatores = pre @ c # post" "\<forall>x\<in>set pre. ?T x = Inr False"
           "?T c = Inr True" "r = ?A c" by blast
      have "combinacoes tb (n # ns) fatores = (map (Pair n) fatores @ pre) @ c # post"
        using par h(1) by (auto simp: combinacoes_Cons)
      moreover have "\<forall>x\<in>set (map (Pair n) fatores @ pre). ?T x = Inr False"
        using h(2) True by (auto simp: testa_cisalhamento_falha)
      ultimately show ?thesis using h(3,4) by blast
    next
      case False
      consider (here) "laco_fatores forca coef fu d t n (forca_adm_cisalhamento_de coef n area_paraf fv n_planos) area_paraf n_planos fatores = Inr (Some r)"
        | (later) "laco_fatores forca coef fu d t n (forca_adm_cisalhamento_de coef n area_paraf fv n_planos) area_paraf n_planos fatores = Inr None"
                  "laco_np forca tb coef fv fu d t area_paraf n_planos fatores ns = Inr (Some r)"
        using par False Cons.prems
        by (auto simp: laco_np_esmagamento simp del: laco_np.simps split: sum.splits option.splits)
      then show ?thesis
      proof cases
        case here
        from laco_fatores_Some[OF here False] obtain pre fp post where
          h: "fatores = pre @ fp # post" "\<forall>x\<in>set pre. ?T (n, x) = Inr False"
             "?T (n, fp) = Inr True" "r = ?A (n, fp)" by blast
        have "combinacoes tb (n # ns) fatores
              = map (Pair n) pre @ (n, fp) # (map (Pair n) post @ combinacoes tb ns fatores)"
          using par h(1) by (auto simp: combinacoes_Cons)
        moreover have "\<forall>x\<in>set (map (Pair n) pre). ?T x = Inr False"
          using h(2) by auto
        ultimately show ?thesis using h(3,4) by blast
      next
        case later
        from Cons.IH[OF later(2)] obtain pre c post where
          h: "combinacoes tb ns fatores = pre @ c # post" "\<forall>x\<in>set pre. ?T x = Inr False"
             "?T c = Inr True" "r = ?A c" by blast
        have "combinacoes tb (n # ns) fatores = (map (Pair n) fatores @ pre) @ c # post"
          using par h(1) by (auto simp: combinacoes_Cons)
        moreover have "\<forall>x\<in>set (map (Pair n) fatores @ pre). ?T x = Inr False"
          using h(2) laco_fatores_None[OF later(1) False] by auto
        ultimately show ?thesis using h(3,4) by blast
      qed
    qed
  qed
qed

lemma combinacoes_mem:
  "(n, fp) \<in> set (combinacoes tb ns fs) \<Longrightarrow>
     n \<in> set ns \<and> fp \<in> set fs \<and> (tb = ''montante'' \<longrightarrow> even n)"
  by (auto simp: combinacoes_def)




lemma ligacao_aceita_tx:
  assumes "testa_combinacao forca coef fv fu d t area_paraf n_planos c = Inr True"
  shows "lig_tx_lig (ligacao_aceita forca coef fv fu d t area_paraf n_planos c) \<le> 1"
  using assms
  by (cases c) (auto simp: testa_combinacao_def ligacao_aceita_def pdiv_def Let_def
                     split: if_splits sum.splits)


text \<open>What a normal return of \<open>dimensionar_ligacao\<close> is: the result of the scan.\<close>

lemma dimensionar_ligacao_Inr:
  assumes "dimensionar_ligacao forca tipo_barra perfil_nome t diametros_furos fv fu
             limite_parafusos planos_cisalhamento fatores df_perfis coef = Inr r"
  shows "\<exists>np_max n_planos.
           limite_parafusos (tipo_base_de tipo_barra) = Some np_max
         \<and> planos_cisalhamento (tipo_base_de tipo_barra) = Some n_planos
         \<and> (laco_np forca (tipo_base_de tipo_barra) coef fv fu
               (d_furo_de diametros_furos (tipo_base_de tipo_barra)) t
               (pi * (d_furo_de diametros_furos (tipo_base_de tipo_barra) / 2) ^ 2)
               n_planos fatores
               [np_min_de (tipo_base_de tipo_barra) df_perfis perfil_nome..np_max]
             = Inr (Some r)
            \<or> r = ligacao_inviavel (d_furo_de diametros_furos (tipo_base_de tipo_barra))
                    (pi * (d_furo_de diametros_furos (tipo_base_de tipo_barra) / 2) ^ 2)
                    n_planos coef)"
  using assms
  by (auto simp: dimensionar_ligacao_def Let_def split: sum.splits option.splits)

lemma dimensionar_ligacao_viavel_tx:
  assumes ret: "dimensionar_ligacao forca tipo_barra perfil_nome t diametros_furos fv fu
                  limite_parafusos planos_cisalhamento fatores df_perfis coef = Inr r"
    and viavel: "lig_viavel r"
  shows "lig_tx_lig r \<le> 1"
proof -
  from dimensionar_ligacao_Inr[OF ret] viavel obtain np_max n_planos where
    "laco_np forca (tipo_base_de tipo_barra) coef fv fu
       (d_furo_de diametros_furos (tipo_base_de tipo_barra)) t
       (pi * (d_furo_de diametros_furos (tipo_base_de tipo_barra) / 2) ^ 2)
       n_planos fatores
       [np_min_de (tipo_base_de tipo_barra) df_perfis perfil_nome..np_max] = Inr (Some r)"
    by (auto simp: ligacao_inviavel_def)
  from laco_np_Some[OF this] show ?thesis
    using ligacao_aceita_tx by blast
qed

lemma dimensionar_ligacao_nao_viavel:
  assumes ret: "dimensionar_ligacao forca tipo_barra perfil_nome t diametros_furos fv fu
                  limite_parafusos planos_cisalhamento fatores df_perfis coef = Inr r"
    and nv: "\<not> lig_viavel r"
  shows "lig_forca_adm_cisalhamento r = 0 \<and> lig_forca_adm_esmagamento r = 0
         \<and> lig_tx_lig r = 999 \<and> lig_np r = None"
proof -
  from dimensionar_ligacao_Inr[OF ret] obtain np_max n_planos where
    h: "laco_np forca (tipo_base_de tipo_barra) coef fv fu
          (d_furo_de diametros_furos (tipo_base_de tipo_barra)) t
          (pi * (d_furo_de diametros_furos (tipo_base_de tipo_barra) / 2) ^ 2)
          n_planos fatores
          [np_min_de (tipo_base_de tipo_barra) df_perfis perfil_nome..np_max] = Inr (Some r)
        \<or> r = ligacao_inviavel (d_furo_de diametros_furos (tipo_base_de tipo_barra))
                (pi * (d_furo_de diametros_furos (tipo_base_de tipo_barra) / 2) ^ 2)
                n_planos coef"
    by blast
  then show ?thesis
  proof
    assume "laco_np forca (tipo_base_de tipo_barra) coef fv fu
          (d_furo_de diametros_furos (tipo_base_de tipo_barra)) t
          (pi * (d_furo_de diametros_furos (tipo_base_de tipo_barra) / 2) ^ 2)
          n_planos fatores
          [np_min_de (tipo_base_de tipo_barra) df_perfis perfil_nome..np_max] = Inr (Some r)"
    from laco_np_Some[OF this] nv show ?thesis by (auto simp: ligacao_aceita_def)
  next
    assume "r = ligacao_inviavel (d_furo_de diametros_furos (tipo_base_de tipo_barra))
                (pi * (d_furo_de diametros_furos (tipo_base_de tipo_barra) / 2) ^ 2)
                n_planos coef"
    then show ?thesis by (simp add: ligacao_inviavel_def)
  qed
qed

subsection \<open>Calls for a leg, evaluated\<close>

lemma tipo_base_montante_esq: "tipo_base_de ''montante_esq'' = ''montante''"
  by (simp add: tipo_base_de_def)

lemma tipo_base_montante_iff:
  "tipo_base_de tipo_barra = ''montante'' \<longleftrightarrow> str_contains ''montante'' tipo_barra"
  by (simp add: tipo_base_de_def)

text \<open>The row of the table gives 2 as the first bolt count of the leg.\<close>

lemma np_min_montante_ex: "np_min_montante [ex_perfil\<lparr>p_t := x\<rparr>] ''L 50x50x5'' = 2"
  by (simp add: np_min_montante_def linhas_do_perfil_def ex_perfil_def strip_def is_space_def
        py_round_def Let_def)

lemma limites_de_pi:
  "1800 * pi < 7200" "\<not> 3600 * pi < 7200" "2 \<le> pi" "\<not> 1800 * pi < 100"
  using pi_less_4 pi_ge_two by linarith+

text \<open>
  A leg with 7200 kgf on a flange of 0.21 cm: two bolts fail in shear, three are odd,
  four pass in shear, fail in bearing with the first factor and pass with the second.
\<close>

lemma dimensionar_ligacao_ex_montante:
  "dimensionar_ligacao 7200 ''montante_esq'' ''L 50x50x5'' (21 / 100) ex_furos 1000 4000
      ex_limite ex_planos ex_fatores [ex_perfil\<lparr>p_t := 21 / 100\<rparr>] (9 / 10)
   = Inr (ligacao_aceita 7200 (9 / 10) 1000 4000 2 (21 / 100) pi 1 (4, 5 / 4))"
  using limites_de_pi
  by (simp add: dimensionar_ligacao_def tipo_base_montante_esq np_min_de_def
        np_min_montante_ex ex_furos_def ex_limite_def ex_planos_def ex_fatores_def
        d_furo_de_def Let_def forca_adm_cisalhamento_de_def pdiv_def ligacao_aceita_def
        upto.simps)

lemma combinacoes_ex_montante:
  "combinacoes ''montante'' [2..8] ex_fatores
   = [(2, 13 / 12), (2, 5 / 4), (4, 13 / 12)] @ (4, 5 / 4)
     # [(6, 13 / 12), (6, 5 / 4), (8, 13 / 12), (8, 5 / 4)]"
  by (simp add: combinacoes_def ex_fatores_def upto.simps)

lemma testa_combinacao_ex_montante:
  "testa_combinacao 7200 (9 / 10) 1000 4000 2 (21 / 100) pi 1 (2, 13 / 12) = Inr False"
  "testa_combinacao 7200 (9 / 10) 1000 4000 2 (21 / 100) pi 1 (2, 5 / 4) = Inr False"
  "testa_combinacao 7200 (9 / 10) 1000 4000 2 (21 / 100) pi 1 (4, 13 / 12) = Inr False"
  "testa_combinacao 7200 (9 / 10) 1000 4000 2 (21 / 100) pi 1 (4, 5 / 4) = Inr True"
  using limites_de_pi
  by (simp_all add: testa_combinacao_def forca_adm_cisalhamento_de_def pdiv_def Let_def)

section \<open>C3: the accepted combination\<close>

text \<open>
  C3. For every feasible result of \<open>dimensionar_ligacao\<close>, with \<open>classe\<close> the base class
  of the bar, \<open>linhas\<close> the rows of the profile table with the name of the profile, and
  \<open>minimo\<close> the first bolt count (for a leg the rounded \<open>Np min\<close> of the first such row,
  4 when there is no such row or the value is missing; 1 for a diagonal or horizontal):
  the selected bolt count is at least \<open>minimo\<close> and at most the maximum of the class in
  \<open>limite_parafusos\<close>, it is even for a leg, and the returned pair of bolt count and
  bearing factor is the first one, in the order of ascending bolt counts and of the list
  of bearing factors, that passes the shear and the bearing test with utilization at most
  1: every pair before it in that order was tested and passed over.
\<close>

theorem dimensionar_ligacao_primeira_combinacao:
  assumes ret: "dimensionar_ligacao forca tipo_barra perfil_nome t diametros_furos fv fu
                  limite_parafusos planos_cisalhamento fatores df_perfis coef = Inr r"
    and viavel: "lig_viavel r"
    and classe: "classe = (if str_contains ''montante'' tipo_barra then ''montante''
                           else if str_contains ''diagonal'' tipo_barra then ''diagonal''
                           else ''horizontal'')"
    and linhas: "linhas = filter (\<lambda>p. strip (p_Perfil p) = strip perfil_nome) df_perfis"
    and minimo: "minimo = (if str_contains ''montante'' tipo_barra
                           then (case linhas of
                                   [] \<Rightarrow> 4
                                 | linha # _ \<Rightarrow>
                                     (case p_Np_min linha of
                                        None \<Rightarrow> 4
                                      | Some v \<Rightarrow> py_round v))
                           else 1)"
  shows "\<exists>n fp np_max pre post.
           lig_np r = Some n \<and> lig_fator_fp r = Some fp
         \<and> limite_parafusos classe = Some np_max
         \<and> minimo \<le> n \<and> n \<le> np_max
         \<and> (str_contains ''montante'' tipo_barra \<longrightarrow> even n)
         \<and> combinacoes classe [minimo..np_max] fatores = pre @ (n, fp) # post
         \<and> (\<forall>c\<in>set pre. testa_combinacao forca coef fv fu (lig_d_furo r) t
                              (lig_area_parafuso r) (lig_planos r) c = Inr False)
         \<and> testa_combinacao forca coef fv fu (lig_d_furo r) t
              (lig_area_parafuso r) (lig_planos r) (n, fp) = Inr True
         \<and> lig_tx_lig r \<le> 1"
proof -
  let ?tb = "tipo_base_de tipo_barra"
  let ?d = "d_furo_de diametros_furos ?tb"
  let ?a = "pi * (?d / 2) ^ 2"
  have tb: "?tb = classe" using classe by (simp add: tipo_base_de_def)
  have mont: "classe = ''montante'' \<longleftrightarrow> str_contains ''montante'' tipo_barra"
    using tb tipo_base_montante_iff by metis
  have m: "np_min_de ?tb df_perfis perfil_nome = minimo"
    using minimo linhas tipo_base_montante_iff[of tipo_barra]
    by (simp add: np_min_de_def np_min_montante_def linhas_do_perfil_def)
  from dimensionar_ligacao_Inr[OF ret] viavel obtain np_max n_planos where
    k0: "limite_parafusos ?tb = Some np_max"
    and l0: "laco_np forca ?tb coef fv fu ?d t ?a n_planos fatores
               [np_min_de ?tb df_perfis perfil_nome..np_max] = Inr (Some r)"
    by (auto simp: ligacao_inviavel_def)
  have k: "limite_parafusos classe = Some np_max" using k0 tb by simp
  have l: "laco_np forca classe coef fv fu ?d t ?a n_planos fatores [minimo..np_max]
           = Inr (Some r)"
    using l0 m tb by metis
  let ?T = "testa_combinacao forca coef fv fu ?d t ?a n_planos"
  from laco_np_Some[OF l] obtain pre c post where
    h: "combinacoes classe [minimo..np_max] fatores = pre @ c # post"
       "\<forall>x\<in>set pre. ?T x = Inr False" "?T c = Inr True"
       "r = ligacao_aceita forca coef fv fu ?d t ?a n_planos c" by blast
  obtain n fp where c: "c = (n, fp)" by (cases c)
  have mem: "(n, fp) \<in> set (combinacoes classe [minimo..np_max] fatores)"
    using h(1) c by simp
  from combinacoes_mem[OF mem] have
    rng: "minimo \<le> n" "n \<le> np_max" and ev: "classe = ''montante'' \<longrightarrow> even n"
    by auto
  have flds: "lig_np r = Some n" "lig_fator_fp r = Some fp" "lig_d_furo r = ?d"
             "lig_area_parafuso r = ?a" "lig_planos r = n_planos"
    using h(4) c by (simp_all add: ligacao_aceita_def)
  have tx: "lig_tx_lig r \<le> 1" using ligacao_aceita_tx[OF h(3)] h(4) by simp
  show ?thesis
    using flds k rng ev mont h(1,2,3) c tx
    by (intro exI[of _ n] exI[of _ fp] exI[of _ np_max] exI[of _ pre] exI[of _ post]) simp
qed


theorem dimensionar_ligacao_primeira_combinacao_witness:
  "dimensionar_ligacao 7200 ''montante_esq'' ''L 50x50x5'' (21 / 100) ex_furos 1000 4000
      ex_limite ex_planos ex_fatores [ex_perfil\<lparr>p_t := 21 / 100\<rparr>] (9 / 10)
   = Inr (ligacao_aceita 7200 (9 / 10) 1000 4000 2 (21 / 100) pi 1 (4, 5 / 4))
   \<and> lig_viavel (ligacao_aceita 7200 (9 / 10) 1000 4000 2 (21 / 100) pi 1 (4, 5 / 4))
   \<and> str_contains ''montante'' ''montante_esq''
   \<and> filter (\<lambda>p. strip (p_Perfil p) = strip ''L 50x50x5'') [ex_perfil\<lparr>p_t := 21 / 100\<rparr>]
     = [ex_perfil\<lparr>p_t := 21 / 100\<rparr>]
   \<and> p_Np_min (ex_perfil\<lparr>p_t := 21 / 100\<rparr>) = Some 2 \<and> py_round 2 = 2
   \<and> lig_np (ligacao_aceita 7200 (9 / 10) 1000 4000 2 (21 / 100) pi 1 (4, 5 / 4)) = Some 4
   \<and> ex_limite ''montante'' = Some 8 \<and> (2::int) \<le> 4 \<and> (4::int) \<le> 8 \<and> even (4::int)
   \<and> combinacoes ''montante'' [2..8] ex_fatores
     = [(2, 13 / 12), (2, 5 / 4), (4, 13 / 12)] @ (4, 5 / 4)
       # [(6, 13 / 12), (6, 5 / 4), (8, 13 / 12), (8, 5 / 4)]
   \<and> testa_combinacao 7200 (9 / 10) 1000 4000 2 (21 / 100) pi 1 (2, 13 / 12) = Inr False
   \<and> testa_combinacao 7200 (9 / 10) 1000 4000 2 (21 / 100) pi 1 (2, 5 / 4) = Inr False
   \<and> testa_combinacao 7200 (9 / 10) 1000 4000 2 (21 / 100) pi 1 (4, 13 / 12) = Inr False
   \<and> testa_combinacao 7200 (9 / 10) 1000 4000 2 (21 / 100) pi 1 (4, 5 / 4) = Inr True
   \<and> lig_tx_lig (ligacao_aceita 7200 (9 / 10) 1000 4000 2 (21 / 100) pi 1 (4, 5 / 4)) \<le> 1"
proof -
  let ?r = "ligacao_aceita 7200 (9 / 10) 1000 4000 2 (21 / 100) pi 1 (4, 5 / 4)"
  let ?p = "ex_perfil\<lparr>p_t := 21 / 100\<rparr>"
  have v: "lig_viavel ?r" "lig_np ?r = Some 4"
    by (simp_all add: ligacao_aceita_def)
  have f: "filter (\<lambda>p. strip (p_Perfil p) = strip ''L 50x50x5'') [?p] = [?p]"
    by (simp add: ex_perfil_def strip_def is_space_def)
  have np: "p_Np_min ?p = Some 2" by (simp add: ex_perfil_def)
  have rd: "py_round 2 = 2" by (simp add: py_round_def Let_def)
  have c: "''montante'' = (if str_contains ''montante'' ''montante_esq'' then ''montante''
                           else if str_contains ''diagonal'' ''montante_esq'' then ''diagonal''
                           else ''horizontal'')" by simp
  have m: "(2::int) = (if str_contains ''montante'' ''montante_esq''
                       then (case [?p] of [] \<Rightarrow> 4
                             | linha # _ \<Rightarrow> (case p_Np_min linha of None \<Rightarrow> 4
                                               | Some v \<Rightarrow> py_round v))
                       else 1)"
    using np rd by simp
  from dimensionar_ligacao_primeira_combinacao[OF dimensionar_ligacao_ex_montante v(1) c f[symmetric] m]
  have tx: "lig_tx_lig ?r \<le> 1" by blast
  have lim: "ex_limite ''montante'' = Some 8" by (simp add: ex_limite_def)
  have s: "str_contains ''montante'' ''montante_esq''" by simp
  show ?thesis
    using dimensionar_ligacao_ex_montante v f np rd lim s combinacoes_ex_montante testa_combinacao_ex_montante tx by simp
qed


section \<open>C2: a flange thickness of zero\<close>

text \<open>
  C2 says that a call of \<open>dimensionar_ligacao\<close> in which no combination satisfies the
  shear and the bearing check never raises and returns the record with admissible forces
  0, utilization 999 and a null bolt count. The escalation of
  \<open>otimizar_ligacoes_montantes_extremidades\<close> (lines 397 and 424) calls the designer with
  \<open>float(metadados[id].get("t", 0.0))\<close>, and nothing stores a key \<open>t\<close>: the flange
  thickness is 0. Then the contact area of every bolt count is 0, no admissible bearing
  force reaches a force of 100 kgf, and at the first bolt count that passes the shear
  check the division of line 95 raises \<open>ZeroDivisionError\<close>, where lines 410 to 412
  expect the record with a null bolt count.
\<close>

theorem dimensionar_ligacao_espessura_nula_raises:
  "combinacoes ''montante'' [2..8] ex_fatores
     = [(2, 13 / 12), (2, 5 / 4), (4, 13 / 12), (4, 5 / 4),
        (6, 13 / 12), (6, 5 / 4), (8, 13 / 12), (8, 5 / 4)]
   \<and> \<not> combinacao_atende 100 (9 / 10) 1000 4000 2 0 pi 1 (2, 13 / 12)
   \<and> \<not> combinacao_atende 100 (9 / 10) 1000 4000 2 0 pi 1 (2, 5 / 4)
   \<and> \<not> combinacao_atende 100 (9 / 10) 1000 4000 2 0 pi 1 (4, 13 / 12)
   \<and> \<not> combinacao_atende 100 (9 / 10) 1000 4000 2 0 pi 1 (4, 5 / 4)
   \<and> \<not> combinacao_atende 100 (9 / 10) 1000 4000 2 0 pi 1 (6, 13 / 12)
   \<and> \<not> combinacao_atende 100 (9 / 10) 1000 4000 2 0 pi 1 (6, 5 / 4)
   \<and> \<not> combinacao_atende 100 (9 / 10) 1000 4000 2 0 pi 1 (8, 13 / 12)
   \<and> \<not> combinacao_atende 100 (9 / 10) 1000 4000 2 0 pi 1 (8, 5 / 4)
   \<and> dimensionar_ligacao 100 ''montante_esq'' ''L 50x50x5'' 0 ex_furos 1000 4000 ex_limite
        ex_planos ex_fatores [ex_perfil] (9 / 10)
     = Inl ZeroDivisionError"
proof -
  have m: "np_min_montante [ex_perfil] ''L 50x50x5'' = 2"
    using np_min_montante_ex[of "1 / 2"] by (simp add: ex_perfil_def)
  have call: "dimensionar_ligacao 100 ''montante_esq'' ''L 50x50x5'' 0 ex_furos 1000 4000
                ex_limite ex_planos ex_fatores [ex_perfil] (9 / 10) = Inl ZeroDivisionError"
    using limites_de_pi
    by (simp add: dimensionar_ligacao_def tipo_base_montante_esq np_min_de_def m
          ex_furos_def ex_limite_def ex_planos_def ex_fatores_def d_furo_de_def Let_def
          forca_adm_cisalhamento_de_def pdiv_def upto.simps)
  have nenhuma:
    "\<not> combinacao_atende 100 (9 / 10) 1000 4000 2 0 pi 1 (2, 13 / 12)"
    "\<not> combinacao_atende 100 (9 / 10) 1000 4000 2 0 pi 1 (2, 5 / 4)"
    "\<not> combinacao_atende 100 (9 / 10) 1000 4000 2 0 pi 1 (4, 13 / 12)"
    "\<not> combinacao_atende 100 (9 / 10) 1000 4000 2 0 pi 1 (4, 5 / 4)"
    "\<not> combinacao_atende 100 (9 / 10) 1000 4000 2 0 pi 1 (6, 13 / 12)"
    "\<not> combinacao_atende 100 (9 / 10) 1000 4000 2 0 pi 1 (6, 5 / 4)"
    "\<not> combinacao_atende 100 (9 / 10) 1000 4000 2 0 pi 1 (8, 13 / 12)"
    "\<not> combinacao_atende 100 (9 / 10) 1000 4000 2 0 pi 1 (8, 5 / 4)"
    by (simp_all add: combinacao_atende_def)
  have ordem: "combinacoes ''montante'' [2..8] ex_fatores
     = [(2, 13 / 12), (2, 5 / 4), (4, 13 / 12), (4, 5 / 4),
        (6, 13 / 12), (6, 5 / 4), (8, 13 / 12), (8, 5 / 4)]"
    by (simp add: combinacoes_def ex_fatores_def upto.simps)
  show ?thesis
    using ordem call nenhuma by blast
qed

section \<open>C7: the results of the axial capacity evaluator\<close>

lemma esbeltez_corrigida_acima_120:
  assumes "calcular_esbeltez_corrigida tipo L r = Inr ec" and "r \<noteq> 0" and "L / r > 120"
  shows "ec = L / r"
  using assms by (auto simp: calcular_esbeltez_corrigida_def pdiv_def split: if_splits)

lemma calcular_esbeltez_corrigida_Inr:
  assumes "calcular_esbeltez_corrigida tipo L r = Inr ec"
  shows "r \<noteq> 0"
  using assms by (auto simp: calcular_esbeltez_corrigida_def pdiv_def split: if_splits)

lemma capacidade_axial_taxa:
  assumes "capacidade_axial p f tipo L coef dfuro E fy desc = Inr r"
  shows "\<exists>adm. ax_forca_axial_admissivel r = Some adm
              \<and> ax_taxa_trabalho r = Some (taxa_trabalho_de f adm)"
  using assms
  by (auto simp: capacidade_axial_def Let_def split: if_splits sum.splits)

lemma tipo_montante_esq: "str_startswith ''montante_esq'' ''montante''"
  by simp

lemma tipo_diagonal_nao_montante: "\<not> str_startswith ''diagonal'' ''montante''"
  by simp

text \<open>A leg of 300 cm on a radius of 1.5 cm under compression: slenderness 200.\<close>

lemma calcula_ex_montante_esbelto:
  "calcula_tensao_axial_admissivel ex_materiais (ex_perfil\<lparr>p_rz := 1\<rparr>) (- 1000)
     ''montante_esq'' 300 (9 / 10) 2 MODULO_ELASTICIDADE_ACO False True None
   = Inr (dicionario_inviavel ''compressao'')"
  by (simp add: calcula_tensao_axial_admissivel_def obter_fy_def ex_materiais_def solicitacao_de_def
        raio_giracao_de_def esbeltez_excedida_def esbeltez_real_de_def Let_def
        LIMITE_ESBELTEZ_MONTANTE_def ex_perfil_def)

text \<open>A diagonal of 100 cm under 1000 kgf of tension, no slenderness limit applied.\<close>

lemma calcula_ex_diagonal_tracao:
  "\<exists>r. calcula_tensao_axial_admissivel ex_materiais (ex_perfil\<lparr>p_rz := 1\<rparr>) 1000
          ''diagonal'' 100 (9 / 10) 2 MODULO_ELASTICIDADE_ACO False False None = Inr r
       \<and> ax_viavel r"
  by (simp add: calcula_tensao_axial_admissivel_def obter_fy_def ex_materiais_def solicitacao_de_def
        raio_giracao_de_def esbeltez_excedida_def esbeltez_real_de_def Let_def
        capacidade_axial_def calcular_area_liquida_efetiva_def taxa_trabalho_de_def
        ex_perfil_def)

text \<open>
  C7. For every call of \<open>calcula_tensao_axial_admissivel\<close> that returns a record: under
  compression or with the compression check forced, a real slenderness above 150 of a leg,
  or a corrected slenderness above 200 of a diagonal or horizontal, gives the infeasible
  record, whose capacity fields are all null; under tension with the limit of the tension
  slenderness enabled, a real slenderness above 375 gives the same record; otherwise the
  utilization returned is the absolute force over the admissible force, or 9999 when the
  admissible force is zero or at most \<open>1e-9\<close>.
\<close>

theorem calcula_tensao_axial_admissivel_resultado:
  assumes ret: "calcula_tensao_axial_admissivel df_mat p f tipo L coef dfuro E limitar forcar
                  desc = Inr r"
  shows "((f \<le> 0 \<or> forcar) \<and> str_startswith tipo ''montante''
            \<and> esbeltez_real_de L (raio_giracao_de p tipo) > 150
          \<longrightarrow> r = dicionario_inviavel (solicitacao_de f))
       \<and> ((f \<le> 0 \<or> forcar) \<and> \<not> str_startswith tipo ''montante''
            \<and> (\<exists>ec. calcular_esbeltez_corrigida tipo L (raio_giracao_de p tipo) = Inr ec
                     \<and> ec > 200)
          \<longrightarrow> r = dicionario_inviavel (solicitacao_de f))
       \<and> (f > 0 \<and> limitar \<and> esbeltez_real_de L (raio_giracao_de p tipo) > 375
          \<longrightarrow> r = dicionario_inviavel (solicitacao_de f))
       \<and> (\<not> ((f \<le> 0 \<or> forcar) \<and> str_startswith tipo ''montante''
                \<and> esbeltez_real_de L (raio_giracao_de p tipo) > 150)
          \<and> \<not> ((f \<le> 0 \<or> forcar) \<and> \<not> str_startswith tipo ''montante''
                \<and> (\<exists>ec. calcular_esbeltez_corrigida tipo L (raio_giracao_de p tipo) = Inr ec
                         \<and> ec > 200))
          \<and> \<not> (f > 0 \<and> limitar \<and> esbeltez_real_de L (raio_giracao_de p tipo) > 375)
          \<longrightarrow> (\<exists>adm. ax_forca_axial_admissivel r = Some adm
                     \<and> ax_taxa_trabalho r
                       = Some (if adm \<noteq> 0 \<and> adm > 1 / 10 ^ 9 then \<bar>f\<bar> / adm else 9999)))
       \<and> (r = dicionario_inviavel (solicitacao_de f)
          \<longrightarrow> \<not> ax_viavel r \<and> ax_tensao_solicitante r = None \<and> ax_area_bruta r = None
              \<and> ax_area_efetiva r = None \<and> ax_forca_axial_admissivel r = None
              \<and> ax_taxa_trabalho r = None \<and> ax_esbeltez_corrigida r = None
              \<and> ax_tensao_fy_corrigida r = None \<and> ax_Fa r = None
              \<and> ax_Fa_reduzido r = None \<and> ax_ft_admissivel r = None
              \<and> ax_esbeltez_tracao r = None)"
proof -
  let ?sol = "solicitacao_de f"
  let ?rg = "raio_giracao_de p tipo"
  let ?er = "esbeltez_real_de L ?rg"
  from ret obtain fy b where
    fy: "obter_fy p df_mat = Inr fy"
    and b: "esbeltez_excedida ?sol limitar forcar tipo L ?rg = Inr b"
    and r: "if b then r = dicionario_inviavel ?sol
            else capacidade_axial p f tipo L coef dfuro E fy desc = Inr r"
    by (auto simp: calcula_tensao_axial_admissivel_def Let_def split: sum.splits bool.splits)
  have sol: "?sol = ''compressao'' \<longleftrightarrow> f \<le> 0" "?sol = ''tracao'' \<longleftrightarrow> f > 0"
    by (auto simp: solicitacao_de_def)
  have A: "(f \<le> 0 \<or> forcar) \<and> str_startswith tipo ''montante'' \<and> ?er > 150 \<Longrightarrow> b"
    using b sol by (auto simp: esbeltez_excedida_def Let_def LIMITE_ESBELTEZ_MONTANTE_def)
  have B: "(f \<le> 0 \<or> forcar) \<and> \<not> str_startswith tipo ''montante''
           \<and> (\<exists>ec. calcular_esbeltez_corrigida tipo L ?rg = Inr ec \<and> ec > 200) \<Longrightarrow> b"
    using b sol by (auto simp: esbeltez_excedida_def Let_def LIMITE_ESBELTEZ_DIAG_HORIZ_def)
  have C: "b" if c: "f > 0 \<and> limitar \<and> ?er > 375"
  proof (cases forcar)
    case False
    with c b sol show ?thesis
      by (auto simp: esbeltez_excedida_def Let_def LIMITE_ESBELTEZ_TRACAO_def)
  next
    case True
    show ?thesis
    proof (cases "str_startswith tipo ''montante''")
      case True
      with A \<open>forcar\<close> c show ?thesis by auto
    next
      case False
      with b \<open>forcar\<close> obtain ec where
        ec: "calcular_esbeltez_corrigida tipo L ?rg = Inr ec"
        and bb: "b = (ec > LIMITE_ESBELTEZ_DIAG_HORIZ)"
        by (auto simp: esbeltez_excedida_def Let_def split: sum.splits)
      have nz: "?rg \<noteq> 0" using calcular_esbeltez_corrigida_Inr[OF ec] .
      with c have "L / ?rg > 375" by (simp add: esbeltez_real_de_def)
      then have "L / ?rg > 120" by linarith
      from esbeltez_corrigida_acima_120[OF ec nz this] \<open>L / ?rg > 375\<close> bb
      show ?thesis by (simp add: LIMITE_ESBELTEZ_DIAG_HORIZ_def)
    qed
  qed
  have D: "\<exists>adm. ax_forca_axial_admissivel r = Some adm
                     \<and> ax_taxa_trabalho r
                       = Some (if adm \<noteq> 0 \<and> adm > 1 / 10 ^ 9 then \<bar>f\<bar> / adm else 9999)"
    if n: "\<not> ((f \<le> 0 \<or> forcar) \<and> str_startswith tipo ''montante'' \<and> ?er > 150)"
          "\<not> ((f \<le> 0 \<or> forcar) \<and> \<not> str_startswith tipo ''montante''
                \<and> (\<exists>ec. calcular_esbeltez_corrigida tipo L ?rg = Inr ec \<and> ec > 200))"
          "\<not> (f > 0 \<and> limitar \<and> ?er > 375)"
  proof -
    have "\<not> b"
      using b n sol
      by (auto simp: esbeltez_excedida_def Let_def LIMITE_ESBELTEZ_MONTANTE_def
            LIMITE_ESBELTEZ_DIAG_HORIZ_def LIMITE_ESBELTEZ_TRACAO_def
            split: if_splits sum.splits)
    with r have "capacidade_axial p f tipo L coef dfuro E fy desc = Inr r" by simp
    from capacidade_axial_taxa[OF this] show ?thesis
      by (simp add: taxa_trabalho_de_def)
  qed
  have E: "r = dicionario_inviavel ?sol
          \<longrightarrow> \<not> ax_viavel r \<and> ax_tensao_solicitante r = None \<and> ax_area_bruta r = None
              \<and> ax_area_efetiva r = None \<and> ax_forca_axial_admissivel r = None
              \<and> ax_taxa_trabalho r = None \<and> ax_esbeltez_corrigida r = None
              \<and> ax_tensao_fy_corrigida r = None \<and> ax_Fa r = None
              \<and> ax_Fa_reduzido r = None \<and> ax_ft_admissivel r = None
              \<and> ax_esbeltez_tracao r = None"
    by (simp add: dicionario_inviavel_def)
  from A B C D E r show ?thesis by (auto split: if_splits)
qed

theorem calcula_tensao_axial_admissivel_resultado_witness:
  "calcula_tensao_axial_admissivel ex_materiais (ex_perfil\<lparr>p_rz := 1\<rparr>) (- 1000)
     ''montante_esq'' 300 (9 / 10) 2 MODULO_ELASTICIDADE_ACO False True None
   = Inr (dicionario_inviavel ''compressao'')
   \<and> esbeltez_real_de 300 (raio_giracao_de (ex_perfil\<lparr>p_rz := 1\<rparr>) ''montante_esq'') > 150
   \<and> ax_taxa_trabalho (dicionario_inviavel ''compressao'') = None
   \<and> \<not> ax_viavel (dicionario_inviavel ''compressao'')"
proof -
  have e: "esbeltez_real_de 300 (raio_giracao_de (ex_perfil\<lparr>p_rz := 1\<rparr>) ''montante_esq'')
           > 150"
    by (simp add: esbeltez_real_de_def raio_giracao_de_def ex_perfil_def)
  from calcula_tensao_axial_admissivel_resultado[OF calcula_ex_montante_esbelto]
  have "\<not> ax_viavel (dicionario_inviavel ''compressao'')
        \<and> ax_taxa_trabalho (dicionario_inviavel ''compressao'') = None"
    by (simp add: solicitacao_de_def)
  with e calcula_ex_montante_esbelto show ?thesis by simp
qed

section \<open>C10: a radius of gyration of zero\<close>

text \<open>
  C10 says that \<open>calcula_tensao_axial_admissivel\<close> never divides by a radius of gyration
  of zero: the slenderness is then the sentinel 9999. Lines 326 and 394 do guard their
  division, but the corrected slenderness of a diagonal or horizontal (line 339, and
  \<open>calcular_esbeltez_corrigida\<close> line 33) divides the length by the radius without a
  guard. A diagonal under compression whose \<open>rz\<close> is 0 raises \<open>ZeroDivisionError\<close>.
\<close>

theorem calcula_tensao_axial_raio_nulo_raises:
  "raio_giracao_de (ex_perfil\<lparr>p_rz := 0\<rparr>) ''diagonal'' = 0
   \<and> esbeltez_real_de 100 (raio_giracao_de (ex_perfil\<lparr>p_rz := 0\<rparr>) ''diagonal'') = 9999
   \<and> calcula_tensao_axial_admissivel ex_materiais (ex_perfil\<lparr>p_rz := 0\<rparr>) (- 1000)
       ''diagonal'' 100 (9 / 10) 2 MODULO_ELASTICIDADE_ACO False False None
     = Inl ZeroDivisionError"
  by (simp add: calcula_tensao_axial_admissivel_def obter_fy_def ex_materiais_def solicitacao_de_def
        raio_giracao_de_def esbeltez_excedida_def esbeltez_real_de_def Let_def
        calcular_esbeltez_corrigida_def pdiv_def ex_perfil_def)

section \<open>C1: a member without a viable profile when the hard stop is disabled\<close>

text \<open>
  The flag that lines 559 to 565 would set is never set: the test \<open>not melhores_por_hipotese\<close>
  is made right after an entry was stored, so the dictionary is never empty there.
\<close>

lemma alist_set_nao_vazio: "alist_set k v xs \<noteq> []"
  by (cases xs) (auto split: if_splits)

lemma laco_hipoteses_nunca_registra:
  "laco_hipoteses cf i d pr fs ms reg = Inr (ms', reg') \<Longrightarrow> reg' = reg"
proof (induction fs arbitrary: ms reg)
  case Nil
  then show ?case by simp
next
  case (Cons a fs)
  obtain n f where a: "a = (n, f)" by (cases a)
  from Cons.prems obtain ms1 where
    "laco_hipoteses cf i d pr fs ms1 reg = Inr (ms', reg')"
    unfolding a
    by (auto simp: Let_def alist_set_nao_vazio split: sum.splits if_splits)
  then show ?case by (rule Cons.IH)
qed










section \<open>C5: the choice between the two critical hypotheses\<close>




lemma ex_perfil_campos:
  "p_Perfil ex_perfil = ''L 50x50x5''" "p_A ex_perfil = 4.8" "p_rx ex_perfil = 1.5"
  "p_rz ex_perfil = 1" "p_b ex_perfil = 5" "p_t ex_perfil = 0.5"
  "p_raio_lam ex_perfil = 0.5" "p_Wx ex_perfil = 3" "p_Peso ex_perfil = 3.77"
  "p_Dmax ex_perfil = Some 2" "p_Notas ex_perfil = Some ''OK!''"
  "p_Np_min ex_perfil = Some 2" "p_Aco ex_perfil = Some ''A572-50''"
  "p_Qtd_furos_An ex_perfil = 1"
  by (simp_all add: ex_perfil_def)





lemma str_contains_montante_esq: "str_contains ''montante'' ''montante_esq''"
  by simp



lemma ex_config_campos:
  "cf_df_montantes ex_config = [ex_perfil]"
  "cf_df_diagonais_horizontais ex_config = [ex_perfil]"
  "cf_df_materiais ex_config = ex_materiais"
  "cf_df_perfis ex_config = [ex_perfil]"
  "cf_coef ex_config = 9 / 10"
  "cf_diametros_furos ex_config = ex_furos"
  "cf_descontos_area_liquida ex_config = Some [''diagonal'' \<mapsto> 1, ''horizontal'' \<mapsto> 1]"
  "cf_limite_parafusos ex_config = ex_limite"
  "cf_planos_cisalhamento ex_config = ex_planos"
  "cf_fatores_esmagamento ex_config = ex_fatores"
  "cf_interromper_se_inviavel ex_config = False"
  by (simp_all add: ex_config_def)

lemma d_furo_ex_montante: "d_furo_de ex_furos ''montante'' = 2"
  by (simp add: d_furo_de_def ex_furos_def)

lemma prepara_barra_ex_montante:
  "prepara_barra ex_config ex_esforcos_montante ex_esforcos_montante ''7'' ex_montante
   = Inr ex_preparo_montante"
  by (simp add: prepara_barra_def esforcos_da_barra_def ex_esforcos_montante_def
        ex_montante_def exclusivamente_tracionada_def Let_def
        filtrar_por_diametro_parafuso_def tipo_base_montante_esq d_furo_ex_montante ex_config_campos
        ex_perfil_campos ex_preparo_montante_def)













end
